theory Spec2Isabelle
  imports Main
begin

section \<open>Gas providers of hardhat-core: a shallow embedding\<close>

text \<open>
  The source is \<^verbatim>\<open>packages/hardhat-core/src/internal/core/providers/gas-providers.ts\<close>.
  Every provider of that file wraps another provider and rewrites the transaction of an
  \<^verbatim>\<open>eth_sendTransaction\<close> request before it forwards the request.

  \<^item> A JSON value is a \<open>json\<close>; an object is an association list in insertion order, and a
    property that is missing is what the source tests as \<^verbatim>\<open>=== undefined\<close>.
  \<^item> A thrown value is a \<open>thrown\<close>; every function that can throw returns
    \<open>thrown + 'a\<close> together with the state it leaves behind.
  \<^item> The wrapped provider is a parameter: a transition function on a state of its own.
    Every request made to it is appended to a log, with its outcome.
  \<^item> Requests are run one after the other: an \<^verbatim>\<open>await\<close> is a plain call. Interleaved
    requests on one instance are outside this model.
\<close>

subsection \<open>JSON values, requests, thrown values\<close>

datatype json =
    JNull
  | JBool bool
  | JNum int
  | JStr string
  | JArr "json list"
  | JObj "(string \<times> json) list"

record request =
  "method" :: string
  params :: "json list"

text \<open>
  \<open>Error m\<close> is an instance of the JavaScript class \<^verbatim>\<open>Error\<close> with message \<open>m\<close>, as the
  wrapped provider may throw it; \<open>NonError v\<close> is a thrown value that is no such instance.
  \<open>TypeError\<close> is the engine's error on reading a property of \<^verbatim>\<open>null\<close>. \<open>CodecError\<close> is
  the failure of the quantity codec. \<open>NotATransactionObject\<close> marks a request whose first
  parameter is present and is not an object: the source leaves that parameter unchecked
  (its type is \<^verbatim>\<open>any\<close>), and this model does not follow the source there.
\<close>

datatype thrown =
    Error string
  | NonError json
  | TypeError
  | CodecError
  | NotATransactionObject

subsection \<open>Objects\<close>

text \<open>Reading \<^verbatim>\<open>o.k\<close> where \<open>o\<close> is an object: \<open>None\<close> is \<^verbatim>\<open>undefined\<close>.\<close>

definition get_field :: "(string \<times> json) list \<Rightarrow> string \<Rightarrow> json option" where
  "get_field ps k = map_of ps k"

text \<open>The assignment \<^verbatim>\<open>o.k = v\<close>: an existing property keeps its place, a new one goes last.\<close>

fun set_field :: "string \<Rightarrow> json \<Rightarrow> (string \<times> json) list \<Rightarrow> (string \<times> json) list" where
  "set_field k v [] = [(k, v)]"
| "set_field k v (p # ps) = (if fst p = k then (k, v) # ps else p # set_field k v ps)"

text \<open>
  Reading \<^verbatim>\<open>v.k\<close> where \<open>v\<close> is any response of the wrapped provider: \<^verbatim>\<open>null\<close> has no
  properties and the read throws; a value that is no object has none of the properties
  read in this file.
\<close>

fun read_prop :: "json \<Rightarrow> string \<Rightarrow> thrown + json option" where
  "read_prop JNull k = Inl TypeError"
| "read_prop (JObj ps) k = Inr (get_field ps k)"
| "read_prop v k = Inr None"

text \<open>
  Reading \<^verbatim>\<open>v[i]\<close> where \<open>v\<close> is \<^verbatim>\<open>undefined\<close> or \<^verbatim>\<open>null\<close> throws; an index into a string
  gives the string of the one character there; an index out of range, or into a number, a
  boolean or an object without that key, is \<^verbatim>\<open>undefined\<close>.
\<close>

fun read_index :: "json option \<Rightarrow> nat \<Rightarrow> thrown + json option" where
  "read_index None i = Inl TypeError"
| "read_index (Some JNull) i = Inl TypeError"
| "read_index (Some (JArr xs)) i = Inr (if i < length xs then Some (xs ! i) else None)"
| "read_index (Some (JStr s)) i = Inr (if i < length s then Some (JStr [s ! i]) else None)"
| "read_index (Some v) i = Inr None"

subsection \<open>The quantity codec\<close>

text \<open>
  Modelled from the spec: \<^verbatim>\<open>numberToRpcQuantity\<close>, \<^verbatim>\<open>rpcQuantityToNumber\<close> and
  \<^verbatim>\<open>rpcQuantityToBN\<close> are imported from \<^verbatim>\<open>../jsonrpc/types/base-types\<close>, which is not part
  of the source at hand. The spec gives the wire format: a non-negative integer as
  \<^verbatim>\<open>0x\<close>-prefixed hexadecimal with no redundant leading zero, and \<^verbatim>\<open>0x0\<close> for zero. The
  encoder writes lower-case digits; the decoder reads digits of either case and rejects
  every other string. A value that is no string is rejected too. The encoder makes no check
  of its own: on a negative number it writes the sign behind the prefix, \<^verbatim>\<open>0x-1\<close> for \<open>- 1\<close>,
  which is no quantity of the wire format (\<open>quantity_of_int\<close> below).
\<close>

definition hex_chars :: string where
  "hex_chars = ''0123456789abcdef''"

definition hex_digit :: "nat \<Rightarrow> char" where
  "hex_digit d = hex_chars ! d"

definition digit_val :: "char \<Rightarrow> nat option" where
  "digit_val c = map_of (zip hex_chars [0..<16] @ zip ''ABCDEF'' [10..<16]) c"

function to_hex :: "nat \<Rightarrow> string" where
  "to_hex n = (if n < 16 then [hex_digit n] else to_hex (n div 16) @ [hex_digit (n mod 16)])"
  by pat_completeness auto
termination
  by (relation "measure id") auto

fun from_hex :: "string \<Rightarrow> nat \<Rightarrow> nat option" where
  "from_hex [] acc = Some acc"
| "from_hex (c # cs) acc =
     (case digit_val c of None \<Rightarrow> None | Some d \<Rightarrow> from_hex cs (16 * acc + d))"

definition numberToRpcQuantity :: "nat \<Rightarrow> string" where
  "numberToRpcQuantity n = ''0x'' @ to_hex n"

definition rpcQuantityToBN :: "string \<Rightarrow> nat option" where
  "rpcQuantityToBN s =
     (case s of
        a # b # ds \<Rightarrow>
          (if a = CHR ''0'' \<and> b = CHR ''x'' \<and> ds \<noteq> [] \<and> (hd ds = CHR ''0'' \<longrightarrow> length ds = 1)
           then from_hex ds 0 else None)
      | _ \<Rightarrow> None)"

text \<open>
  A JavaScript number holds every integer below \<open>2 ^ 53\<close> exactly and not every integer above;
  the conversion to a number is taken to reject a quantity of \<open>2 ^ 53\<close> or more.
\<close>

definition rpcQuantityToNumber :: "string \<Rightarrow> nat option" where
  "rpcQuantityToNumber s =
     (case rpcQuantityToBN s of
        None \<Rightarrow> None
      | Some n \<Rightarrow> if n < 2 ^ 53 then Some n else None)"

text \<open>The codec applied to a value read from a response or from the transaction.\<close>

fun quantityToBN :: "json option \<Rightarrow> thrown + nat" where
  "quantityToBN (Some (JStr s)) = (case rpcQuantityToBN s of None \<Rightarrow> Inl CodecError | Some n \<Rightarrow> Inr n)"
| "quantityToBN v = Inl CodecError"

fun quantityToNumber :: "json option \<Rightarrow> thrown + nat" where
  "quantityToNumber (Some (JStr s)) =
     (case rpcQuantityToNumber s of None \<Rightarrow> Inl CodecError | Some n \<Rightarrow> Inr n)"
| "quantityToNumber v = Inl CodecError"

subsection \<open>Double-precision numbers\<close>

text \<open>
  The gas multiplier and the constant \<^verbatim>\<open>0.95\<close> are JavaScript numbers, that is IEEE 754
  doubles. A finite non-negative double is \<open>mant * 2 ^ expo\<close> with \<open>mant < 2 ^ 53\<close>.
  The only operation of the source on them is \<^verbatim>\<open>Math.floor(n * d)\<close> with \<open>n\<close> a
  non-negative integer below \<open>2 ^ 53\<close>: the exact product is rounded to 53 significant bits,
  the nearest value winning and a tie going to the even one, and the result is floored.
  A product of \<open>2 ^ 1024\<close> or more is \<^verbatim>\<open>Infinity\<close> in JavaScript and a large integer here;
  the source only compares it with the block gas limit, which it exceeds either way.
  Negative numbers, \<^verbatim>\<open>NaN\<close> and the infinities are not values of this type: the spec has
  the multiplier positive.
\<close>

record double =
  mant :: nat
  expo :: int

fun bit_length :: "nat \<Rightarrow> nat" where
  "bit_length n = (if n = 0 then 0 else Suc (bit_length (n div 2)))"

text \<open>\<open>round_shift p s\<close> is \<open>p / 2 ^ s\<close> rounded to the nearest integer, a tie to the even one.\<close>

definition round_shift :: "nat \<Rightarrow> nat \<Rightarrow> nat" where
  "round_shift p s =
     (let q = p div 2 ^ s; r = p mod 2 ^ s
      in if 2 * r < 2 ^ s \<or> (2 * r = 2 ^ s \<and> even q) then q else q + 1)"

definition floor_mul :: "nat \<Rightarrow> double \<Rightarrow> nat" where
  "floor_mul n d =
     (let p = n * mant d;
          s = bit_length p - 53;
          r = round_shift p s;
          e = int s + expo d
      in if 0 \<le> e then r * 2 ^ nat e else r div 2 ^ nat (- e))"

definition is_one :: "double \<Rightarrow> bool" where
  "is_one d = (expo d \<le> 0 \<and> mant d = 2 ^ nat (- expo d))"

definition greater_than_one :: "double \<Rightarrow> bool" where
  "greater_than_one d =
     (if 0 \<le> expo d then 1 < mant d * 2 ^ nat (expo d) else 2 ^ nat (- expo d) < mant d)"

text \<open>The literal \<^verbatim>\<open>0.95\<close>: the double nearest to 19/20 is \<open>8556839292003942 / 2 ^ 53\<close>.\<close>

definition c095 :: double where
  "c095 = \<lparr>mant = 8556839292003942, expo = - 53\<rparr>"

definition DEFAULT_GAS_MULTIPLIER :: double where
  "DEFAULT_GAS_MULTIPLIER = \<lparr>mant = 1, expo = 0\<rparr>"

subsection \<open>Error messages\<close>

text \<open>
  \<^verbatim>\<open>error.message.toLowerCase().includes("execution error")\<close>. A message is a string of
  8-bit characters here, and \<open>toLowerCase\<close> maps the letters A to Z.
\<close>

definition toLowerCase :: "string \<Rightarrow> string" where
  "toLowerCase s =
     map (\<lambda>c. case map_of (zip ''ABCDEFGHIJKLMNOPQRSTUVWXYZ'' ''abcdefghijklmnopqrstuvwxyz'') c of
                None \<Rightarrow> c | Some l \<Rightarrow> l) s"

fun starts_with :: "string \<Rightarrow> string \<Rightarrow> bool" where
  "starts_with s [] = True"
| "starts_with [] (p # ps) = False"
| "starts_with (c # cs) (p # ps) = (c = p \<and> starts_with cs ps)"

fun str_includes :: "string \<Rightarrow> string \<Rightarrow> bool" where
  "str_includes [] p = (p = [])"
| "str_includes (c # cs) p = (starts_with (c # cs) p \<or> str_includes cs p)"

text \<open>
  The test of the \<^verbatim>\<open>catch\<close> block, lines 88 and 89. A thrown value that is no \<^verbatim>\<open>Error\<close> fails
  the \<^verbatim>\<open>instanceof\<close> test. The engine's \<open>TypeError\<close> and the codec's error are taken to carry
  a message without the phrase.
\<close>

fun is_execution_error :: "thrown \<Rightarrow> bool" where
  "is_execution_error (Error m) = str_includes (toLowerCase m) ''execution error''"
| "is_execution_error e = False"

subsection \<open>The wrapped provider\<close>

type_synonym 'p provider = "'p \<Rightarrow> request \<Rightarrow> (thrown + json) \<times> 'p"

record 'p world =
  inner :: 'p
  log :: "(request \<times> (thrown + json)) list"

text \<open>
  Modelled from the spec: the base class \<^verbatim>\<open>ProviderWrapper\<close> of \<^verbatim>\<open>./wrapper\<close> is not part of the
  source at hand. By the spec it holds a reference to an inner provider, to which every
  request goes as \<^verbatim>\<open>this._wrappedProvider.request(args)\<close>, and it has a helper that reads the
  parameter list of a request: \<^verbatim>\<open>this._getParams(args)\<close> is \<open>params args\<close> here, and a request
  without parameters has the empty list.
\<close>

definition wrapped_request ::
  "'p provider \<Rightarrow> request \<Rightarrow> 'p world \<Rightarrow> (thrown + json) \<times> 'p world" where
  "wrapped_request P args w =
     (case P (inner w) args of
        (r, p') \<Rightarrow> (r, \<lparr>inner = p', log = log w @ [(args, r)]\<rparr>))"

definition latest_block_request :: request where
  "latest_block_request =
     \<lparr>method = ''eth_getBlockByNumber'', params = [JStr ''latest'', JBool False]\<rparr>"

subsection \<open>FixedGasProvider and FixedGasPriceProvider\<close>

definition FixedGasProvider_request ::
  "'p provider \<Rightarrow> nat \<Rightarrow> request \<Rightarrow> 'p world \<Rightarrow> (thrown + json) \<times> 'p world" where
  "FixedGasProvider_request P gasLimit args w =
     (if method args = ''eth_sendTransaction'' then
        (case params args of
           [] \<Rightarrow> wrapped_request P args w
         | JObj tx # rest \<Rightarrow>
             (if get_field tx ''gas'' = None
              then wrapped_request P
                     (args\<lparr>params :=
                        JObj (set_field ''gas'' (JStr (numberToRpcQuantity gasLimit)) tx) # rest\<rparr>) w
              else wrapped_request P args w)
         | _ \<Rightarrow> (Inl NotATransactionObject, w))
      else wrapped_request P args w)"

definition FixedGasPriceProvider_request ::
  "'p provider \<Rightarrow> nat \<Rightarrow> request \<Rightarrow> 'p world \<Rightarrow> (thrown + json) \<times> 'p world" where
  "FixedGasPriceProvider_request P gasPrice args w =
     (if method args = ''eth_sendTransaction'' then
        (case params args of
           [] \<Rightarrow> wrapped_request P args w
         | JObj tx # rest \<Rightarrow>
             (if get_field tx ''gasPrice'' = None \<and>
                 get_field tx ''maxFeePerGas'' = None \<and>
                 get_field tx ''maxPriorityFeePerGas'' = None
              then wrapped_request P
                     (args\<lparr>params :=
                        JObj (set_field ''gasPrice'' (JStr (numberToRpcQuantity gasPrice)) tx) # rest\<rparr>) w
              else wrapped_request P args w)
         | _ \<Rightarrow> (Inl NotATransactionObject, w))
      else wrapped_request P args w)"

subsection \<open>MultipliedGasEstimationProvider\<close>

record MultipliedGasEstimationProvider =
  gasMultiplier :: double
  blockGasLimit :: "nat option"

text \<open>The \<^verbatim>\<open>gasLimit\<close> of a block as a number, line 107.\<close>

definition fetchedGasLimit :: "json \<Rightarrow> thrown + nat" where
  "fetchedGasLimit latestBlock =
     (case read_prop latestBlock ''gasLimit'' of
        Inl e \<Rightarrow> Inl e
      | Inr v \<Rightarrow> quantityToNumber v)"

definition getBlockGasLimit ::
  "'p provider \<Rightarrow> MultipliedGasEstimationProvider \<Rightarrow> 'p world \<Rightarrow>
   (thrown + nat) \<times> MultipliedGasEstimationProvider \<times> 'p world" where
  "getBlockGasLimit P inst w =
     (case blockGasLimit inst of
        Some l \<Rightarrow> (Inr l, inst, w)
      | None \<Rightarrow>
          (case wrapped_request P latest_block_request w of
             (Inl e, w1) \<Rightarrow> (Inl e, inst, w1)
           | (Inr latestBlock, w1) \<Rightarrow>
               (case fetchedGasLimit latestBlock of
                  Inl e \<Rightarrow> (Inl e, inst, w1)
                | Inr g \<Rightarrow>
                    (Inr (floor_mul g c095),
                     inst\<lparr>blockGasLimit := Some (floor_mul g c095)\<rparr>, w1))))"

text \<open>
  Lines 84 and 86: the clamp, and the encoding of its result. With a cached limit of 0 the
  clamp gives \<open>- 1\<close>; the source encodes it without a check, and the string returned is
  \<^verbatim>\<open>0x-1\<close>.
\<close>

definition clamp_gas :: "nat \<Rightarrow> nat \<Rightarrow> int" where
  "clamp_gas multiplied gasLimit =
     (if multiplied > gasLimit then int gasLimit - 1 else int multiplied)"

definition quantity_of_int :: "int \<Rightarrow> json" where
  "quantity_of_int n =
     JStr (if n < 0 then ''0x-'' @ to_hex (nat (- n)) else numberToRpcQuantity (nat n))"

text \<open>The body of the \<^verbatim>\<open>try\<close> block, lines 71 to 86.\<close>

definition estimation_try ::
  "'p provider \<Rightarrow> MultipliedGasEstimationProvider \<Rightarrow> json list \<Rightarrow> 'p world \<Rightarrow>
   (thrown + json) \<times> MultipliedGasEstimationProvider \<times> 'p world" where
  "estimation_try P inst ps w =
     (case wrapped_request P \<lparr>method = ''eth_estimateGas'', params = ps\<rparr> w of
        (Inl e, w1) \<Rightarrow> (Inl e, inst, w1)
      | (Inr realEstimation, w1) \<Rightarrow>
          (if is_one (gasMultiplier inst) then (Inr realEstimation, inst, w1)
           else
             (case quantityToNumber (Some realEstimation) of
                Inl e \<Rightarrow> (Inl e, inst, w1)
              | Inr normalGas \<Rightarrow>
                  (case getBlockGasLimit P inst w1 of
                     (Inl e, inst2, w2) \<Rightarrow> (Inl e, inst2, w2)
                   | (Inr gasLimit, inst2, w2) \<Rightarrow>
                       (Inr (quantity_of_int
                               (clamp_gas (floor_mul normalGas (gasMultiplier inst)) gasLimit)),
                        inst2, w2)))))"

text \<open>\<^verbatim>\<open>_getMultipliedGasEstimation\<close>: the \<^verbatim>\<open>try\<close> block under its \<^verbatim>\<open>catch\<close>, lines 87 to 97.\<close>

definition getMultipliedGasEstimation ::
  "'p provider \<Rightarrow> MultipliedGasEstimationProvider \<Rightarrow> json list \<Rightarrow> 'p world \<Rightarrow>
   (thrown + json) \<times> MultipliedGasEstimationProvider \<times> 'p world" where
  "getMultipliedGasEstimation P inst ps w =
     (case estimation_try P inst ps w of
        (Inr v, inst1, w1) \<Rightarrow> (Inr v, inst1, w1)
      | (Inl error, inst1, w1) \<Rightarrow>
          (if is_execution_error error then
             (case getBlockGasLimit P inst1 w1 of
                (Inl e, inst2, w2) \<Rightarrow> (Inl e, inst2, w2)
              | (Inr l, inst2, w2) \<Rightarrow> (Inr (JStr (numberToRpcQuantity l)), inst2, w2))
           else (Inl error, inst1, w1)))"

subsection \<open>AutomaticGasProvider\<close>

definition AutomaticGasProvider_request ::
  "'p provider \<Rightarrow> MultipliedGasEstimationProvider \<Rightarrow> request \<Rightarrow> 'p world \<Rightarrow>
   (thrown + json) \<times> MultipliedGasEstimationProvider \<times> 'p world" where
  "AutomaticGasProvider_request P inst args w =
     (if method args = ''eth_sendTransaction'' then
        (case params args of
           [] \<Rightarrow> (case wrapped_request P args w of (r, w1) \<Rightarrow> (r, inst, w1))
         | JObj tx # rest \<Rightarrow>
             (if get_field tx ''gas'' = None then
                (case getMultipliedGasEstimation P inst (params args) w of
                   (Inl e, inst1, w1) \<Rightarrow> (Inl e, inst1, w1)
                 | (Inr gas, inst1, w1) \<Rightarrow>
                     (case wrapped_request P
                             (args\<lparr>params := JObj (set_field ''gas'' gas tx) # rest\<rparr>) w1 of
                        (r, w2) \<Rightarrow> (r, inst1, w2)))
              else (case wrapped_request P args w of (r, w1) \<Rightarrow> (r, inst, w1)))
         | _ \<Rightarrow> (Inl NotATransactionObject, inst, w))
      else (case wrapped_request P args w of (r, w1) \<Rightarrow> (r, inst, w1)))"

subsection \<open>AutomaticGasPriceProvider\<close>

definition EIP1559_BASE_FEE_MAX_FULL_BLOCKS_PREFERENCE :: nat where
  "EIP1559_BASE_FEE_MAX_FULL_BLOCKS_PREFERENCE = 3"

definition EIP1559_REWARD_PERCENTILE :: int where
  "EIP1559_REWARD_PERCENTILE = 50"

record AutomaticGasPriceProvider =
  nodeHasFeeHistory :: "bool option"
  nodeSupportsEIP1559 :: "bool option"

text \<open>The values of \<^verbatim>\<open>_suggestEip1559FeePriceValues\<close>; a \<^verbatim>\<open>BN\<close> decoded from a quantity is a \<open>nat\<close>.\<close>

record fee_values =
  maxFeePerGas :: nat
  maxPriorityFeePerGas :: nat

definition fee_history_request :: request where
  "fee_history_request =
     \<lparr>method = ''eth_feeHistory'',
      params = [JStr ''0x1'', JStr ''latest'', JArr [JNum EIP1559_REWARD_PERCENTILE]]\<rparr>"

text \<open>\<^verbatim>\<open>_getGasPrice\<close>, lines 216 to 222.\<close>

definition getGasPrice :: "'p provider \<Rightarrow> 'p world \<Rightarrow> (thrown + nat) \<times> 'p world" where
  "getGasPrice P w =
     (case wrapped_request P \<lparr>method = ''eth_gasPrice'', params = []\<rparr> w of
        (Inl e, w1) \<Rightarrow> (Inl e, w1)
      | (Inr response, w1) \<Rightarrow> (quantityToBN (Some response), w1))"

text \<open>Lines 231 to 238: the support of EIP-1559 is read off the latest block, once.\<close>

definition detect_eip1559 ::
  "'p provider \<Rightarrow> AutomaticGasPriceProvider \<Rightarrow> 'p world \<Rightarrow>
   (thrown + unit) \<times> AutomaticGasPriceProvider \<times> 'p world" where
  "detect_eip1559 P inst w =
     (case nodeSupportsEIP1559 inst of
        Some b \<Rightarrow> (Inr (), inst, w)
      | None \<Rightarrow>
          (case wrapped_request P latest_block_request w of
             (Inl e, w1) \<Rightarrow> (Inl e, inst, w1)
           | (Inr block, w1) \<Rightarrow>
               (case read_prop block ''baseFeePerGas'' of
                  Inl e \<Rightarrow> (Inl e, inst, w1)
                | Inr v \<Rightarrow> (Inr (), inst\<lparr>nodeSupportsEIP1559 := Some (v \<noteq> None)\<rparr>, w1))))"

text \<open>
  Lines 257 to 280: the object built from the response. \<^verbatim>\<open>BN.div\<close> truncates, which on
  non-negative values is \<open>div\<close>.
\<close>

definition fee_values_of_response :: "json \<Rightarrow> thrown + fee_values" where
  "fee_values_of_response response =
     (case read_prop response ''baseFeePerGas'' of
        Inl e \<Rightarrow> Inl e
      | Inr bs \<Rightarrow>
     (case read_index bs 1 of
        Inl e \<Rightarrow> Inl e
      | Inr b \<Rightarrow>
     (case quantityToBN b of
        Inl e \<Rightarrow> Inl e
      | Inr base \<Rightarrow>
     (case read_prop response ''reward'' of
        Inl e \<Rightarrow> Inl e
      | Inr rs \<Rightarrow>
     (case read_index rs 0 of
        Inl e \<Rightarrow> Inl e
      | Inr r0 \<Rightarrow>
     (case read_index r0 0 of
        Inl e \<Rightarrow> Inl e
      | Inr r \<Rightarrow>
     (case quantityToBN r of
        Inl e \<Rightarrow> Inl e
      | Inr reward \<Rightarrow>
          Inr \<lparr>maxFeePerGas =
                 base * 9 ^ (EIP1559_BASE_FEE_MAX_FULL_BLOCKS_PREFERENCE - 1)
                   div 8 ^ (EIP1559_BASE_FEE_MAX_FULL_BLOCKS_PREFERENCE - 1),
               maxPriorityFeePerGas = reward\<rparr>)))))))"

text \<open>\<^verbatim>\<open>_suggestEip1559FeePriceValues\<close>; \<open>Inr None\<close> is the return of \<^verbatim>\<open>undefined\<close>.\<close>

definition suggestEip1559FeePriceValues ::
  "'p provider \<Rightarrow> AutomaticGasPriceProvider \<Rightarrow> 'p world \<Rightarrow>
   (thrown + fee_values option) \<times> AutomaticGasPriceProvider \<times> 'p world" where
  "suggestEip1559FeePriceValues P inst w =
     (case detect_eip1559 P inst w of
        (Inl e, inst1, w1) \<Rightarrow> (Inl e, inst1, w1)
      | (Inr u, inst1, w1) \<Rightarrow>
          (if nodeHasFeeHistory inst1 = Some False \<or> nodeSupportsEIP1559 inst1 = Some False
           then (Inr None, inst1, w1)
           else
             (case wrapped_request P fee_history_request w1 of
                (Inl e, w2) \<Rightarrow> (Inr None, inst1\<lparr>nodeHasFeeHistory := Some False\<rparr>, w2)
              | (Inr response, w2) \<Rightarrow>
                  (case fee_values_of_response response of
                     Inl e \<Rightarrow> (Inr None, inst1\<lparr>nodeHasFeeHistory := Some False\<rparr>, w2)
                   | Inr v \<Rightarrow> (Inr (Some v), inst1, w2)))))"

text \<open>
  Lines 196 to 211: the two fees are resolved from the transaction or from the suggested
  values, the cap is raised when it is below the priority fee, and both are written back.
\<close>

definition resolve_fees :: "(string \<times> json) list \<Rightarrow> fee_values \<Rightarrow> thrown + (string \<times> json) list" where
  "resolve_fees tx suggested =
     (case (case get_field tx ''maxFeePerGas'' of
              Some v \<Rightarrow> quantityToBN (Some v)
            | None \<Rightarrow> Inr (maxFeePerGas suggested)) of
        Inl e \<Rightarrow> Inl e
      | Inr maxFee \<Rightarrow>
     (case (case get_field tx ''maxPriorityFeePerGas'' of
              Some v \<Rightarrow> quantityToBN (Some v)
            | None \<Rightarrow> Inr (maxPriorityFeePerGas suggested)) of
        Inl e \<Rightarrow> Inl e
      | Inr maxPriority \<Rightarrow>
          Inr (set_field ''maxPriorityFeePerGas'' (JStr (numberToRpcQuantity maxPriority))
                (set_field ''maxFeePerGas''
                   (JStr (numberToRpcQuantity
                      (if maxFee < maxPriority then maxFee + maxPriority else maxFee)))
                   tx))))"

text \<open>
  Lines 187 to 194: without suggested values, the gas price stands in for both fees.
\<close>

definition values_or_gas_price ::
  "'p provider \<Rightarrow> fee_values option \<Rightarrow> 'p world \<Rightarrow> (thrown + fee_values) \<times> 'p world" where
  "values_or_gas_price P suggested w =
     (case suggested of
        Some v \<Rightarrow> (Inr v, w)
      | None \<Rightarrow>
          (case getGasPrice P w of
             (Inl e, w1) \<Rightarrow> (Inl e, w1)
           | (Inr gasPrice, w1) \<Rightarrow>
               (Inr \<lparr>maxFeePerGas = gasPrice, maxPriorityFeePerGas = gasPrice\<rparr>, w1)))"

text \<open>\<^verbatim>\<open>AutomaticGasPriceProvider.request\<close>, lines 151 to 214.\<close>

definition AutomaticGasPriceProvider_request ::
  "'p provider \<Rightarrow> AutomaticGasPriceProvider \<Rightarrow> request \<Rightarrow> 'p world \<Rightarrow>
   (thrown + json) \<times> AutomaticGasPriceProvider \<times> 'p world" where
  "AutomaticGasPriceProvider_request P inst args w =
     (if method args \<noteq> ''eth_sendTransaction''
      then (case wrapped_request P args w of (r, w1) \<Rightarrow> (r, inst, w1))
      else
        (case params args of
           [] \<Rightarrow> (case wrapped_request P args w of (r, w1) \<Rightarrow> (r, inst, w1))
         | JObj tx # rest \<Rightarrow>
             (if get_field tx ''gasPrice'' \<noteq> None \<or>
                 (get_field tx ''maxFeePerGas'' \<noteq> None \<and>
                  get_field tx ''maxPriorityFeePerGas'' \<noteq> None)
              then (case wrapped_request P args w of (r, w1) \<Rightarrow> (r, inst, w1))
              else
                (case suggestEip1559FeePriceValues P inst w of
                   (Inl e, inst1, w1) \<Rightarrow> (Inl e, inst1, w1)
                 | (Inr suggested, inst1, w1) \<Rightarrow>
                     (if get_field tx ''maxFeePerGas'' = None \<and>
                         get_field tx ''maxPriorityFeePerGas'' = None \<and>
                         suggested = None
                      then
                        (case getGasPrice P w1 of
                           (Inl e, w2) \<Rightarrow> (Inl e, inst1, w2)
                         | (Inr gasPrice, w2) \<Rightarrow>
                             (case wrapped_request P
                                     (args\<lparr>params :=
                                        JObj (set_field ''gasPrice''
                                                (JStr (numberToRpcQuantity gasPrice)) tx) # rest\<rparr>)
                                     w2 of
                                (r, w3) \<Rightarrow> (r, inst1, w3)))
                      else
                        (case values_or_gas_price P suggested w1 of
                           (Inl e, w2) \<Rightarrow> (Inl e, inst1, w2)
                         | (Inr values, w2) \<Rightarrow>
                             (case resolve_fees tx values of
                                Inl e \<Rightarrow> (Inl e, inst1, w2)
                              | Inr tx' \<Rightarrow>
                                  (case wrapped_request P (args\<lparr>params := JObj tx' # rest\<rparr>) w2 of
                                     (r, w3) \<Rightarrow> (r, inst1, w3)))))))
         | _ \<Rightarrow> (Inl NotATransactionObject, inst, w)))"

subsection \<open>Runs and what they show\<close>

text \<open>
  Several estimations on one instance, one after the other; an estimation that throws
  leaves the instance and the wrapped provider as they are at the throw.
\<close>

fun run_estimations ::
  "'p provider \<Rightarrow> MultipliedGasEstimationProvider \<Rightarrow> 'p world \<Rightarrow> json list list \<Rightarrow>
   MultipliedGasEstimationProvider \<times> 'p world" where
  "run_estimations P inst w [] = (inst, w)"
| "run_estimations P inst w (ps # pss) =
     (case getMultipliedGasEstimation P inst ps w of
        (r, inst1, w1) \<Rightarrow> run_estimations P inst1 w1 pss)"

text \<open>The latest-block lookups of a log, whatever their outcome.\<close>

definition block_fetches :: "(request \<times> (thrown + json)) list \<Rightarrow> (request \<times> (thrown + json)) list" where
  "block_fetches lg = filter (\<lambda>entry. fst entry = latest_block_request) lg"

text \<open>
  The gas limits that the latest-block lookups of a log delivered: a lookup that threw, or
  whose answer has no readable \<open>gasLimit\<close>, delivered none.
\<close>

fun observed_gas_limits :: "(request \<times> (thrown + json)) list \<Rightarrow> nat list" where
  "observed_gas_limits [] = []"
| "observed_gas_limits (entry # es) =
     (case snd entry of
        Inl e \<Rightarrow> observed_gas_limits es
      | Inr latestBlock \<Rightarrow>
          (if fst entry = latest_block_request
           then (case fetchedGasLimit latestBlock of
                   Inl e \<Rightarrow> observed_gas_limits es
                 | Inr g \<Rightarrow> g # observed_gas_limits es)
           else observed_gas_limits es))"

text \<open>
  The cache and the log agree: the cache is empty and no lookup delivered a gas limit, or
  one lookup did and the cache holds \<^verbatim>\<open>Math.floor\<close> of that gas limit times \<^verbatim>\<open>0.95\<close>.
\<close>

definition cache_agrees :: "MultipliedGasEstimationProvider \<Rightarrow> 'p world \<Rightarrow> bool" where
  "cache_agrees inst w =
     (map (\<lambda>g. floor_mul g c095) (observed_gas_limits (log w)) =
        (case blockGasLimit inst of None \<Rightarrow> [] | Some l \<Rightarrow> [l]))"

subsection \<open>A scripted provider\<close>

text \<open>
  The provider of the examples below: it answers the requests it receives with the outcomes
  of a list, in order, whatever the request is, and throws once the list is used up.
\<close>

fun scripted :: "(thrown + json) list provider" where
  "scripted [] args = (Inl (Error ''no response left''), [])"
| "scripted (r # rs) args = (r, rs)"

section \<open>Properties\<close>

declare to_hex.simps [simp del]
declare bit_length.simps [simp del]

subsection \<open>The codec decodes what it encodes\<close>

lemma digit_val_hex_digit: "d < 16 \<Longrightarrow> digit_val (hex_digit d) = Some d"
proof -
  have "\<forall>d \<in> set [0..<16]. digit_val (hex_digit d) = Some d"
    by (simp add: digit_val_def hex_digit_def hex_chars_def upt_rec)
  then show "d < 16 \<Longrightarrow> digit_val (hex_digit d) = Some d" by simp
qed

lemma hex_digit_zero: "d < 16 \<Longrightarrow> hex_digit d = CHR ''0'' \<Longrightarrow> d = 0"
proof -
  assume d: "d < 16" and z: "hex_digit d = CHR ''0''"
  have "digit_val (hex_digit d) = Some d" using d by (rule digit_val_hex_digit)
  moreover have "digit_val (CHR ''0'') = Some 0"
    by (simp add: digit_val_def hex_chars_def upt_rec)
  ultimately show "d = 0" using z by simp
qed

lemma from_hex_snoc:
  "from_hex (xs @ [c]) acc =
     (case from_hex xs acc of
        None \<Rightarrow> None
      | Some a \<Rightarrow> (case digit_val c of None \<Rightarrow> None | Some d \<Rightarrow> Some (16 * a + d)))"
  by (induction xs arbitrary: acc) (auto split: option.splits)

lemma from_hex_to_hex: "from_hex (to_hex n) 0 = Some n"
proof (induction n rule: to_hex.induct)
  case (1 n)
  show ?case
  proof (cases "n < 16")
    case True
    then show ?thesis by (simp add: to_hex.simps [of n] digit_val_hex_digit)
  next
    case False
    with 1 have "from_hex (to_hex (n div 16)) 0 = Some (n div 16)" by simp
    with False show ?thesis
      by (simp add: to_hex.simps [of n] from_hex_snoc digit_val_hex_digit)
  qed
qed

lemma to_hex_not_Nil: "to_hex n \<noteq> []"
  by (subst to_hex.simps) simp

lemma hd_to_hex_zero: "hd (to_hex n) = CHR ''0'' \<Longrightarrow> n = 0"
proof (induction n rule: to_hex.induct)
  case (1 n)
  show ?case
  proof (cases "n < 16")
    case True
    with 1(2) show ?thesis by (simp add: to_hex.simps [of n] hex_digit_zero)
  next
    case False
    with 1(2) have "hd (to_hex (n div 16)) = CHR ''0''"
      by (simp add: to_hex.simps [of n] to_hex_not_Nil)
    with 1(1) False have "n div 16 = 0" by simp
    with False show ?thesis by simp
  qed
qed

lemma to_hex_zero: "to_hex 0 = ''0''"
  by (simp add: to_hex.simps [of 0] hex_digit_def hex_chars_def)

lemma rpcQuantityToBN_numberToRpcQuantity: "rpcQuantityToBN (numberToRpcQuantity n) = Some n"
proof -
  have "hd (to_hex n) = CHR ''0'' \<longrightarrow> length (to_hex n) = 1"
    using hd_to_hex_zero [of n] to_hex_zero by auto
  then show ?thesis
    by (simp add: rpcQuantityToBN_def numberToRpcQuantity_def to_hex_not_Nil from_hex_to_hex)
qed

lemma numberToRpcQuantity_inj: "numberToRpcQuantity a = numberToRpcQuantity b \<Longrightarrow> a = b"
  by (metis rpcQuantityToBN_numberToRpcQuantity option.inject)

lemma get_field_set_field:
  "get_field (set_field k v tx) k' = (if k' = k then Some v else get_field tx k')"
  by (induction tx) (auto simp: get_field_def)

subsection \<open>Evaluating the codec and the rounding\<close>

lemma digit_val_eval:
  "digit_val (CHR ''0'') = Some 0" "digit_val (CHR ''1'') = Some 1"
  "digit_val (CHR ''2'') = Some 2" "digit_val (CHR ''3'') = Some 3"
  "digit_val (CHR ''4'') = Some 4" "digit_val (CHR ''5'') = Some 5"
  "digit_val (CHR ''6'') = Some 6" "digit_val (CHR ''7'') = Some 7"
  "digit_val (CHR ''8'') = Some 8" "digit_val (CHR ''9'') = Some 9"
  "digit_val (CHR ''a'') = Some 10" "digit_val (CHR ''b'') = Some 11"
  "digit_val (CHR ''c'') = Some 12" "digit_val (CHR ''d'') = Some 13"
  "digit_val (CHR ''e'') = Some 14" "digit_val (CHR ''f'') = Some 15"
  "digit_val (CHR ''A'') = Some 10" "digit_val (CHR ''B'') = Some 11"
  "digit_val (CHR ''C'') = Some 12" "digit_val (CHR ''D'') = Some 13"
  "digit_val (CHR ''E'') = Some 14" "digit_val (CHR ''F'') = Some 15"
  by (simp_all add: digit_val_def hex_chars_def upt_rec)

lemma decode_small:
  "rpcQuantityToBN ''0x1'' = Some 1" "rpcQuantityToBN ''0x2'' = Some 2"
  "rpcQuantityToBN ''0x5'' = Some 5" "rpcQuantityToBN ''0x7'' = Some 7"
  "rpcQuantityToBN ''0x9'' = Some 9"
  by (simp_all add: rpcQuantityToBN_def digit_val_eval)

lemma decode_0x64: "rpcQuantityToBN ''0x64'' = Some 100"
  by (simp add: rpcQuantityToBN_def digit_val_eval)

lemma bit_length_unique: "2 ^ k \<le> 2 * n \<Longrightarrow> n < 2 ^ k \<Longrightarrow> bit_length n = k"
proof (induction k arbitrary: n)
  case 0
  then show ?case by simp
next
  case (Suc k)
  then have n: "n \<noteq> 0" by auto
  show ?case
  proof (cases k)
    case 0
    with Suc.prems have "n = 1" by simp
    then show ?thesis using 0 by (simp add: bit_length.simps)
  next
    case (Suc j)
    from Suc.prems have "2 ^ k \<le> n" "n < 2 * 2 ^ k" by simp_all
    then have "2 ^ k \<le> 2 * (n div 2)" "n div 2 < 2 ^ k"
      using Suc by (simp_all add: less_mult_imp_div_less) 
    then have "bit_length (n div 2) = k" by (rule Suc.IH)
    then show ?thesis using n by (subst bit_length.simps) simp
  qed
qed

lemma floor_mul_30000000: "floor_mul 30000000 c095 = 28500000"
proof -
  have "bit_length (30000000 * 8556839292003942) = 78"
    by (rule bit_length_unique) simp_all
  then show ?thesis
    by (simp add: floor_mul_def c095_def round_shift_def Let_def)
qed

lemma floor_mul_11: "floor_mul 11 c095 = 10"
proof -
  have "bit_length (11 * 8556839292003942) = 57"
    by (rule bit_length_unique) simp_all
  then show ?thesis
    by (simp add: floor_mul_def c095_def round_shift_def Let_def)
qed

lemma floor_mul_5_by_2: "floor_mul 5 \<lparr>mant = 2, expo = 0\<rparr> = 10"
proof -
  have "bit_length (5 * 2) = 4"
    by (rule bit_length_unique) simp_all
  then show ?thesis
    by (simp add: floor_mul_def round_shift_def Let_def)
qed

subsection \<open>Rounding to a double: \<^verbatim>\<open>Math.floor(g * 0.95)\<close>\<close>

lemma bit_length_upper: "n < 2 ^ bit_length n"
proof (induction n rule: bit_length.induct)
  case (1 n)
  show ?case
  proof (cases "n = 0")
    case True
    then show ?thesis by simp
  next
    case False
    with 1 have "n div 2 < 2 ^ bit_length (n div 2)" by simp
    then have "n < 2 * 2 ^ bit_length (n div 2)" by linarith
    with False show ?thesis by (subst bit_length.simps) simp
  qed
qed

lemma bit_length_lower: "0 < n \<Longrightarrow> 2 ^ bit_length n \<le> 2 * n"
proof (induction n rule: bit_length.induct)
  case (1 n)
  then have n: "n \<noteq> 0" by simp
  show ?case
  proof (cases "n div 2 = 0")
    case True
    with n have "n = 1" by (simp add: div_eq_0_iff) 
    then show ?thesis by (simp add: bit_length.simps)
  next
    case False
    with 1 n have "2 ^ bit_length (n div 2) \<le> 2 * (n div 2)" by simp
    then have "2 * 2 ^ bit_length (n div 2) \<le> 2 * n" by linarith
    with n show ?thesis by (subst bit_length.simps) simp
  qed
qed

lemma round_shift_bounds:
  "2 * (round_shift p s * 2 ^ s) \<le> 2 * p + 2 ^ s \<and> 2 * p \<le> 2 * (round_shift p s * 2 ^ s) + 2 ^ s"
proof -
  define q where "q = p div 2 ^ s"
  define r where "r = p mod 2 ^ s"
  define S where "S = (2::nat) ^ s"
  have p: "p = q * S + r" unfolding q_def r_def S_def by (rule div_mult_mod_eq [symmetric])
  have rS: "r < S" by (simp add: r_def S_def)
  have "round_shift p s = (if 2 * r < S \<or> (2 * r = S \<and> even q) then q else q + 1)"
    by (simp add: round_shift_def Let_def q_def r_def S_def)
  then show ?thesis
    unfolding S_def [symmetric] using p rS by (auto simp: algebra_simps)
qed

text \<open>
  Up to \<open>2 ^ 50\<close> the rounding of the product to a double does not show: the floor is the
  floor of the exact 95 percent.
\<close>

lemma floor_mul_c095_exact:
  assumes "g \<le> 2 ^ 50"
  shows "floor_mul g c095 = 19 * g div 20"
proof -
  define p where "p = g * 8556839292003942"
  define s where "s = bit_length p - 53"
  define R where "R = round_shift p s"
  define S where "S = (2::nat) ^ s"
  define D where "D = (2::nat) ^ (53 - s)"
  define k where "k = 19 * g div 20"
  define f where "f = 19 * g mod 20"
  have kf: "19 * g = 20 * k + f" and f: "f < 20" by (simp_all add: k_def f_def)
  have "p < 2 ^ 50 * 2 ^ 53" if "0 < g"
    using assms that unfolding p_def by simp
  have ple: "p < 2 ^ 103" using assms unfolding p_def by simp
  have "bit_length p \<le> 103"
  proof (rule ccontr)
    assume "\<not> bit_length p \<le> 103"
    then have b: "104 \<le> bit_length p" by simp
    then have "0 < p" by (auto simp: bit_length.simps [of p] split: if_splits)
    then have "2 ^ bit_length p \<le> 2 * p" by (rule bit_length_lower)
    moreover have "(2::nat) ^ 104 \<le> 2 ^ bit_length p" using b by (rule power_increasing) simp
    ultimately show False using ple by simp
  qed
  then have s50: "s \<le> 50" by (simp add: s_def)
  then have S50: "S \<le> 2 ^ 50" unfolding S_def by (rule power_increasing) simp
  have DS: "D * S = 2 ^ 53" using s50 by (simp add: D_def S_def flip: power_add)
  have Spos: "0 < S" by (simp add: S_def)
  have pS: "p < S * 2 ^ 53"
  proof -
    have "p < 2 ^ bit_length p" by (rule bit_length_upper)
    also have "\<dots> \<le> 2 ^ (s + 53)" by (rule power_increasing) (simp_all add: s_def)
    finally show ?thesis by (simp add: S_def power_add)
  qed
  have Sg: "S \<le> 2 * g \<or> S = 1"
  proof (cases "s = 0")
    case True
    then show ?thesis by (simp add: S_def)
  next
    case False
    then have b: "bit_length p = s + 53" by (simp add: s_def)
    then have "0 < p" by (auto simp: bit_length.simps [of p] split: if_splits)
    then have "2 ^ bit_length p \<le> 2 * p" by (rule bit_length_lower)
    then have "S * 2 ^ 53 \<le> 2 * p" by (simp add: b S_def power_add)
    then show ?thesis unfolding p_def by simp
  qed
  have rb: "2 * (R * S) \<le> 2 * p + S" "2 * p \<le> 2 * (R * S) + S"
    using round_shift_bounds [of p s] by (simp_all add: R_def S_def)
  have lower: "k * D \<le> R"
  proof (rule ccontr)
    assume "\<not> k * D \<le> R"
    then have "R + 1 \<le> k * D" by simp
    then have "(R + 1) * S \<le> (k * D) * S" by (rule mult_le_mono1)
    also have "(k * D) * S = k * 2 ^ 53" using DS by (simp add: mult.assoc)
    finally have "R * S + S \<le> k * 2 ^ 53" by simp
    then show False using rb pS kf f unfolding p_def by simp
  qed
  have upper: "R < (k + 1) * D"
  proof (rule ccontr)
    assume "\<not> R < (k + 1) * D"
    then have "(k + 1) * D \<le> R" by simp
    then have "((k + 1) * D) * S \<le> R * S" by (rule mult_le_mono1)
    moreover have "((k + 1) * D) * S = (k + 1) * 2 ^ 53"
      using DS by (simp only: mult.assoc)
    ultimately have "(k + 1) * 2 ^ 53 \<le> R * S" by (simp only:)
    then have "k * 2 ^ 53 + 2 ^ 53 \<le> R * S" by simp
    then show False using rb Sg S50 kf f unfolding p_def by auto
  qed
  have "R div D = k"
    using lower upper by (intro div_nat_eqI) (simp_all add: algebra_simps)
  moreover have "floor_mul g c095 = R div D"
    using s50 by (simp add: floor_mul_def c095_def Let_def p_def s_def R_def D_def nat_diff_distrib)
  ultimately show ?thesis by (simp add: k_def)
qed

text \<open>
  Beyond that bound the rounding can show: for this gas limit below \<open>2 ^ 53\<close> the product is
  rounded up across an integer, and \<^verbatim>\<open>Math.floor\<close> is one more than the floor of the exact
  95 percent.
\<close>

lemma floor_mul_c095_rounded:
  "floor_mul 9007199254740982 c095 = 8556839292003933 \<and>
   19 * 9007199254740982 div 20 = (8556839292003932 :: nat)"
proof -
  have "bit_length (9007199254740982 * 8556839292003942) = 106"
    by (rule bit_length_unique) simp_all
  then show ?thesis
    by (simp add: floor_mul_def c095_def round_shift_def Let_def)
qed

subsection \<open>FixedGasPriceProvider\<close>

text \<open>
  Claim C9. On an \<^verbatim>\<open>eth_sendTransaction\<close> request whose first parameter is a transaction
  object, the fixed gas price provider forwards the request with \<open>gasPrice\<close> set to the
  encoding of its constant, and every other property as it was, when \<open>gasPrice\<close>,
  \<open>maxFeePerGas\<close> and \<open>maxPriorityFeePerGas\<close> are all absent; when one of the three is
  present it forwards the request as it came.
\<close>

theorem C9_fixed_gas_price:
  assumes "method args = ''eth_sendTransaction''" and "params args = JObj tx # rest"
  shows "(get_field tx ''gasPrice'' = None \<and> get_field tx ''maxFeePerGas'' = None \<and>
          get_field tx ''maxPriorityFeePerGas'' = None \<longrightarrow>
            (\<exists>tx'. FixedGasPriceProvider_request P gasPrice args w =
                     wrapped_request P (args\<lparr>params := JObj tx' # rest\<rparr>) w \<and>
                   get_field tx' ''gasPrice'' = Some (JStr (numberToRpcQuantity gasPrice)) \<and>
                   rpcQuantityToBN (numberToRpcQuantity gasPrice) = Some gasPrice \<and>
                   (\<forall>k. k \<noteq> ''gasPrice'' \<longrightarrow> get_field tx' k = get_field tx k))) \<and>
         (get_field tx ''gasPrice'' \<noteq> None \<or> get_field tx ''maxFeePerGas'' \<noteq> None \<or>
          get_field tx ''maxPriorityFeePerGas'' \<noteq> None \<longrightarrow>
            FixedGasPriceProvider_request P gasPrice args w = wrapped_request P args w)"
  using assms
  by (auto simp: FixedGasPriceProvider_request_def get_field_set_field
      rpcQuantityToBN_numberToRpcQuantity)

theorem C9_witness:
  "FixedGasPriceProvider_request scripted 7
     \<lparr>method = ''eth_sendTransaction'', params = [JObj [(''maxFeePerGas'', JStr ''0x1'')]]\<rparr>
     \<lparr>inner = [Inr (JStr ''0xabc'')], log = []\<rparr> =
   (Inr (JStr ''0xabc''),
    \<lparr>inner = [],
     log = [(\<lparr>method = ''eth_sendTransaction'', params = [JObj [(''maxFeePerGas'', JStr ''0x1'')]]\<rparr>,
             Inr (JStr ''0xabc''))]\<rparr>) \<and>
   (\<exists>tx'. FixedGasPriceProvider_request scripted 7
            \<lparr>method = ''eth_sendTransaction'', params = [JObj [(''to'', JStr ''0xee'')]]\<rparr>
            \<lparr>inner = [Inr (JStr ''0xabc'')], log = []\<rparr> =
          (Inr (JStr ''0xabc''),
           \<lparr>inner = [],
            log = [(\<lparr>method = ''eth_sendTransaction'', params = [JObj tx']\<rparr>,
                    Inr (JStr ''0xabc''))]\<rparr>) \<and>
          get_field tx' ''gasPrice'' = Some (JStr (numberToRpcQuantity 7)) \<and>
          get_field tx' ''to'' = Some (JStr ''0xee''))"
  using
    C9_fixed_gas_price
      [of "\<lparr>method = ''eth_sendTransaction'', params = [JObj [(''maxFeePerGas'', JStr ''0x1'')]]\<rparr>"
          "[(''maxFeePerGas'', JStr ''0x1'')]" "[]" scripted 7
          "\<lparr>inner = [Inr (JStr ''0xabc'')], log = []\<rparr>"]
    C9_fixed_gas_price
      [of "\<lparr>method = ''eth_sendTransaction'', params = [JObj [(''to'', JStr ''0xee'')]]\<rparr>"
          "[(''to'', JStr ''0xee'')]" "[]" scripted 7
          "\<lparr>inner = [Inr (JStr ''0xabc'')], log = []\<rparr>"]
  by (simp add: wrapped_request_def) (auto simp: get_field_def)

subsection \<open>The estimation with a multiplier of 1\<close>

text \<open>
  Claim C6. With a gas multiplier equal to 1, a successful \<^verbatim>\<open>eth_estimateGas\<close> is returned
  as the wrapped provider gave it, the instance is left as it was, and the one request made
  to the wrapped provider is that estimation: no latest-block lookup is issued.
\<close>

theorem C6_multiplier_one_returns_raw_estimate:
  assumes "is_one (gasMultiplier inst)"
    and "P (inner w) \<lparr>method = ''eth_estimateGas'', params = ps\<rparr> = (Inr realEstimation, p')"
  shows "getMultipliedGasEstimation P inst ps w =
           (Inr realEstimation, inst,
            \<lparr>inner = p',
             log = log w @ [(\<lparr>method = ''eth_estimateGas'', params = ps\<rparr>, Inr realEstimation)]\<rparr>) \<and>
         filter (\<lambda>entry. method (fst entry) = ''eth_getBlockByNumber'')
           (drop (length (log w)) (log (snd (snd (getMultipliedGasEstimation P inst ps w))))) = []"
  using assms
  by (simp add: getMultipliedGasEstimation_def estimation_try_def wrapped_request_def)

theorem C6_witness:
  "is_one DEFAULT_GAS_MULTIPLIER \<and>
   getMultipliedGasEstimation scripted \<lparr>gasMultiplier = DEFAULT_GAS_MULTIPLIER, blockGasLimit = None\<rparr>
     [JObj [(''to'', JStr ''0xee'')]] \<lparr>inner = [Inr (JStr ''0x00a'')], log = []\<rparr> =
   (Inr (JStr ''0x00a''), \<lparr>gasMultiplier = DEFAULT_GAS_MULTIPLIER, blockGasLimit = None\<rparr>,
    \<lparr>inner = [],
     log = [(\<lparr>method = ''eth_estimateGas'', params = [JObj [(''to'', JStr ''0xee'')]]\<rparr>,
             Inr (JStr ''0x00a''))]\<rparr>)"
  using C6_multiplier_one_returns_raw_estimate
    [of "\<lparr>gasMultiplier = DEFAULT_GAS_MULTIPLIER, blockGasLimit = None\<rparr>" scripted
        "\<lparr>inner = [Inr (JStr ''0x00a'')], log = []\<rparr>" "[JObj [(''to'', JStr ''0xee'')]]"
        "JStr ''0x00a''" "[]"]
  by (simp add: is_one_def DEFAULT_GAS_MULTIPLIER_def)

subsection \<open>The cached block gas limit\<close>

lemma greater_than_one_not_is_one: "greater_than_one d \<Longrightarrow> \<not> is_one d"
  by (auto simp: greater_than_one_def is_one_def split: if_splits)

lemma getBlockGasLimit_caches:
  "getBlockGasLimit P inst w = (Inr l, inst2, w2) \<Longrightarrow> blockGasLimit inst2 = Some l"
  by (auto simp: getBlockGasLimit_def split: option.splits prod.splits sum.splits)

lemma getBlockGasLimit_cached:
  "blockGasLimit inst = Some l \<Longrightarrow> getBlockGasLimit P inst w = (Inr l, inst, w)"
  by (simp add: getBlockGasLimit_def)

subsection \<open>The estimation when \<^verbatim>\<open>eth_estimateGas\<close> throws\<close>

text \<open>
  Claim C2. Let \<^verbatim>\<open>eth_estimateGas\<close> throw. If the thrown value is an \<^verbatim>\<open>Error\<close> whose message,
  in lower case, contains \<^verbatim>\<open>execution error\<close>, the estimation asks for the block gas limit
  and returns it, encoded as a quantity: the value returned is the value the instance holds
  in its cache afterwards, and no multiplication takes place. Should the block gas limit
  itself be out of reach, that failure is the outcome. If the thrown value is anything
  else, it is thrown on as it is, and the instance is left as it was.
\<close>

theorem C2_execution_error_returns_block_limit:
  assumes "wrapped_request P \<lparr>method = ''eth_estimateGas'', params = ps\<rparr> w = (Inl error, w1)"
  shows "(\<forall>m. error = Error m \<and> str_includes (toLowerCase m) ''execution error'' \<longrightarrow>
            (\<forall>l inst2 w2. getBlockGasLimit P inst w1 = (Inr l, inst2, w2) \<longrightarrow>
               getMultipliedGasEstimation P inst ps w =
                 (Inr (JStr (numberToRpcQuantity l)), inst2, w2) \<and>
               blockGasLimit inst2 = Some l \<and>
               rpcQuantityToBN (numberToRpcQuantity l) = Some l) \<and>
            (\<forall>e inst2 w2. getBlockGasLimit P inst w1 = (Inl e, inst2, w2) \<longrightarrow>
               getMultipliedGasEstimation P inst ps w = (Inl e, inst2, w2))) \<and>
         ((\<forall>m. error = Error m \<longrightarrow> \<not> str_includes (toLowerCase m) ''execution error'') \<longrightarrow>
            getMultipliedGasEstimation P inst ps w = (Inl error, inst, w1))"
proof -
  have body: "estimation_try P inst ps w = (Inl error, inst, w1)"
    using assms by (simp add: estimation_try_def)
  have exec: "getMultipliedGasEstimation P inst ps w =
      (case getBlockGasLimit P inst w1 of
         (Inl e, inst2, w2) \<Rightarrow> (Inl e, inst2, w2)
       | (Inr l, inst2, w2) \<Rightarrow> (Inr (JStr (numberToRpcQuantity l)), inst2, w2))"
    if "is_execution_error error"
    using that body by (simp add: getMultipliedGasEstimation_def)
  have other: "getMultipliedGasEstimation P inst ps w = (Inl error, inst, w1)"
    if "\<not> is_execution_error error"
    using that body by (simp add: getMultipliedGasEstimation_def)
  have no: "\<not> is_execution_error error"
    if "\<forall>m. error = Error m \<longrightarrow> \<not> str_includes (toLowerCase m) ''execution error''"
    using that by (cases error) simp_all
  show ?thesis
    using exec other no
    by (auto simp: getBlockGasLimit_caches rpcQuantityToBN_numberToRpcQuantity)
qed

theorem C2_witness:
  "getMultipliedGasEstimation scripted
     \<lparr>gasMultiplier = \<lparr>mant = 3, expo = - 1\<rparr>, blockGasLimit = None\<rparr> []
     \<lparr>inner = [Inl (Error ''VM Exception: Execution Error: revert''),
               Inr (JObj [(''gasLimit'', JStr ''0x1c9c380'')])], log = []\<rparr> =
   (Inr (JStr (numberToRpcQuantity 28500000)),
    \<lparr>gasMultiplier = \<lparr>mant = 3, expo = - 1\<rparr>, blockGasLimit = Some 28500000\<rparr>,
    \<lparr>inner = [],
     log = [(\<lparr>method = ''eth_estimateGas'', params = []\<rparr>,
             Inl (Error ''VM Exception: Execution Error: revert'')),
            (latest_block_request, Inr (JObj [(''gasLimit'', JStr ''0x1c9c380'')]))]\<rparr>) \<and>
   getMultipliedGasEstimation scripted
     \<lparr>gasMultiplier = \<lparr>mant = 3, expo = - 1\<rparr>, blockGasLimit = None\<rparr> []
     \<lparr>inner = [Inl (Error ''connection refused'')], log = []\<rparr> =
   (Inl (Error ''connection refused''),
    \<lparr>gasMultiplier = \<lparr>mant = 3, expo = - 1\<rparr>, blockGasLimit = None\<rparr>,
    \<lparr>inner = [],
     log = [(\<lparr>method = ''eth_estimateGas'', params = []\<rparr>, Inl (Error ''connection refused''))]\<rparr>)"
  using
    C2_execution_error_returns_block_limit
      [of scripted "[]"
        "\<lparr>inner = [Inl (Error ''VM Exception: Execution Error: revert''),
               Inr (JObj [(''gasLimit'', JStr ''0x1c9c380'')])], log = []\<rparr>"
        "Error ''VM Exception: Execution Error: revert''"
        "\<lparr>inner = [Inr (JObj [(''gasLimit'', JStr ''0x1c9c380'')])],
          log = [(\<lparr>method = ''eth_estimateGas'', params = []\<rparr>,
             Inl (Error ''VM Exception: Execution Error: revert''))]\<rparr>"
        "\<lparr>gasMultiplier = \<lparr>mant = 3, expo = - 1\<rparr>, blockGasLimit = None\<rparr>"]
    C2_execution_error_returns_block_limit
      [of scripted "[]" "\<lparr>inner = [Inl (Error ''connection refused'')], log = []\<rparr>"
        "Error ''connection refused''"
        "\<lparr>inner = [],
          log = [(\<lparr>method = ''eth_estimateGas'', params = []\<rparr>, Inl (Error ''connection refused''))]\<rparr>"
        "\<lparr>gasMultiplier = \<lparr>mant = 3, expo = - 1\<rparr>, blockGasLimit = None\<rparr>"]
  by (simp add: wrapped_request_def toLowerCase_def getBlockGasLimit_def fetchedGasLimit_def
      get_field_def rpcQuantityToNumber_def rpcQuantityToBN_def digit_val_eval
      floor_mul_30000000)

subsection \<open>The clamp of the multiplied estimation\<close>

lemma estimation_try_clamped:
  assumes "\<not> is_one (gasMultiplier inst)"
    and "wrapped_request P \<lparr>method = ''eth_estimateGas'', params = ps\<rparr> w = (Inr (JStr s), w1)"
    and "rpcQuantityToNumber s = Some normalGas"
    and "getBlockGasLimit P inst w1 = (Inr l, inst2, w2)"
  shows "getMultipliedGasEstimation P inst ps w =
           (Inr (quantity_of_int (clamp_gas (floor_mul normalGas (gasMultiplier inst)) l)),
            inst2, w2)"
  using assms
  by (simp add: getMultipliedGasEstimation_def estimation_try_def)

lemma minus_one_is_no_quantity:
  "quantity_of_int (- 1) = JStr ''0x-1'' \<and> rpcQuantityToBN ''0x-1'' = None"
proof -
  have "to_hex (Suc 0) = ''1''"
    by (subst to_hex.simps) (simp add: hex_digit_def hex_chars_def)
  moreover have "digit_val (CHR ''-'') = None"
    by (simp add: digit_val_def hex_chars_def upt_rec)
  ultimately show ?thesis
    by (simp add: quantity_of_int_def rpcQuantityToBN_def)
qed

text \<open>
  Claim C1, as amended. With a multiplier greater than 1, a successful \<^verbatim>\<open>eth_estimateGas\<close>
  and a positive block gas limit \<open>l\<close> at hand, a gas is returned and it is at most \<open>l\<close>: it is
  the multiplied estimation when that is at most \<open>l\<close>, which includes \<open>l\<close> itself, and it is
  \<open>l - 1\<close> when the multiplied estimation exceeds \<open>l\<close>. With a limit of 0 and a positive
  multiplied estimation, the string returned is \<^verbatim>\<open>0x-1\<close>, which decodes to no gas.
\<close>

theorem C1_returned_gas_at_most_block_limit:
  assumes "greater_than_one (gasMultiplier inst)"
    and "wrapped_request P \<lparr>method = ''eth_estimateGas'', params = ps\<rparr> w = (Inr (JStr s), w1)"
    and "rpcQuantityToNumber s = Some normalGas"
    and "getBlockGasLimit P inst w1 = (Inr l, inst2, w2)"
  shows "(floor_mul normalGas (gasMultiplier inst) \<le> l \<longrightarrow>
            getMultipliedGasEstimation P inst ps w =
              (Inr (JStr (numberToRpcQuantity (floor_mul normalGas (gasMultiplier inst)))),
               inst2, w2)) \<and>
         (l < floor_mul normalGas (gasMultiplier inst) \<and> 0 < l \<longrightarrow>
            getMultipliedGasEstimation P inst ps w =
              (Inr (JStr (numberToRpcQuantity (l - 1))), inst2, w2)) \<and>
         (0 < l \<longrightarrow>
            (\<exists>gas. fst (getMultipliedGasEstimation P inst ps w) =
                     Inr (JStr (numberToRpcQuantity gas)) \<and>
                   rpcQuantityToBN (numberToRpcQuantity gas) = Some gas \<and> gas \<le> l)) \<and>
         (l = 0 \<and> 0 < floor_mul normalGas (gasMultiplier inst) \<longrightarrow>
            getMultipliedGasEstimation P inst ps w = (Inr (JStr ''0x-1''), inst2, w2) \<and>
            rpcQuantityToBN ''0x-1'' = None) \<and>
         blockGasLimit inst2 = Some l"
proof -
  let ?m = "floor_mul normalGas (gasMultiplier inst)"
  have res: "getMultipliedGasEstimation P inst ps w =
      (Inr (quantity_of_int (clamp_gas ?m l)), inst2, w2)"
    using greater_than_one_not_is_one [OF assms(1)] assms(2-4) by (rule estimation_try_clamped)
  have below: "quantity_of_int (clamp_gas ?m l) = JStr (numberToRpcQuantity ?m)" if "?m \<le> l"
    using that by (simp add: quantity_of_int_def clamp_gas_def)
  have above: "quantity_of_int (clamp_gas ?m l) = JStr (numberToRpcQuantity (l - 1))"
    if "l < ?m" and "0 < l"
    using that by (simp add: quantity_of_int_def clamp_gas_def nat_diff_distrib)
  have zero: "quantity_of_int (clamp_gas ?m l) = JStr ''0x-1''" if "l = 0" and "0 < ?m"
    using that minus_one_is_no_quantity by (simp add: clamp_gas_def)
  have bounded: "\<exists>gas. quantity_of_int (clamp_gas ?m l) = JStr (numberToRpcQuantity gas) \<and>
      rpcQuantityToBN (numberToRpcQuantity gas) = Some gas \<and> gas \<le> l" if "0 < l"
  proof (cases "?m \<le> l")
    case True
    with below show ?thesis by (auto simp: rpcQuantityToBN_numberToRpcQuantity)
  next
    case False
    with above that
    have "quantity_of_int (clamp_gas ?m l) = JStr (numberToRpcQuantity (l - 1))" by simp
    then show ?thesis
      by (intro exI [of _ "l - 1"]) (simp add: rpcQuantityToBN_numberToRpcQuantity)
  qed
  show ?thesis
    unfolding res
    using below above zero bounded minus_one_is_no_quantity getBlockGasLimit_caches [OF assms(4)]
    by simp
qed

text \<open>
  The claim as first stated asks for at most \<open>l - 1\<close> in every case. A multiplier of 2, an
  estimation of 5 and a latest block with a gas limit of 11 give a cached limit of 10 and a
  returned gas of 10.
\<close>

theorem C1_counterexample:
  "greater_than_one \<lparr>mant = 2, expo = 0\<rparr> \<and>
   getMultipliedGasEstimation scripted
     \<lparr>gasMultiplier = \<lparr>mant = 2, expo = 0\<rparr>, blockGasLimit = None\<rparr> []
     \<lparr>inner = [Inr (JStr ''0x5''), Inr (JObj [(''gasLimit'', JStr ''0xb'')])], log = []\<rparr> =
   (Inr (JStr ''0xa''),
    \<lparr>gasMultiplier = \<lparr>mant = 2, expo = 0\<rparr>, blockGasLimit = Some 10\<rparr>,
    \<lparr>inner = [],
     log = [(\<lparr>method = ''eth_estimateGas'', params = []\<rparr>, Inr (JStr ''0x5'')),
            (latest_block_request, Inr (JObj [(''gasLimit'', JStr ''0xb'')]))]\<rparr>) \<and>
   rpcQuantityToBN ''0xa'' = Some 10 \<and> \<not> (10 :: nat) \<le> 10 - 1"
  by (simp add: greater_than_one_def is_one_def getMultipliedGasEstimation_def estimation_try_def
      wrapped_request_def getBlockGasLimit_def fetchedGasLimit_def get_field_def
      rpcQuantityToNumber_def rpcQuantityToBN_def digit_val_eval hex_chars_def
      floor_mul_11 floor_mul_5_by_2 clamp_gas_def quantity_of_int_def numberToRpcQuantity_def
      to_hex.simps hex_digit_def)

theorem C1_witness:
  "getMultipliedGasEstimation scripted
     \<lparr>gasMultiplier = \<lparr>mant = 2, expo = 0\<rparr>, blockGasLimit = Some 10\<rparr> []
     \<lparr>inner = [Inr (JStr ''0x6'')], log = []\<rparr> =
   (Inr (JStr (numberToRpcQuantity 9)),
    \<lparr>gasMultiplier = \<lparr>mant = 2, expo = 0\<rparr>, blockGasLimit = Some 10\<rparr>,
    \<lparr>inner = [], log = [(\<lparr>method = ''eth_estimateGas'', params = []\<rparr>, Inr (JStr ''0x6''))]\<rparr>) \<and>
   getMultipliedGasEstimation scripted
     \<lparr>gasMultiplier = \<lparr>mant = 2, expo = 0\<rparr>, blockGasLimit = Some 10\<rparr> []
     \<lparr>inner = [Inr (JStr ''0x5'')], log = []\<rparr> =
   (Inr (JStr (numberToRpcQuantity 10)),
    \<lparr>gasMultiplier = \<lparr>mant = 2, expo = 0\<rparr>, blockGasLimit = Some 10\<rparr>,
    \<lparr>inner = [], log = [(\<lparr>method = ''eth_estimateGas'', params = []\<rparr>, Inr (JStr ''0x5''))]\<rparr>)"
proof -
  have b6: "bit_length (6 * 2) = 4" by (rule bit_length_unique) simp_all
  have m6: "floor_mul 6 \<lparr>mant = 2, expo = 0\<rparr> = 12"
    using b6 by (simp add: floor_mul_def round_shift_def Let_def)
  show ?thesis
    using
      C1_returned_gas_at_most_block_limit
        [of "\<lparr>gasMultiplier = \<lparr>mant = 2, expo = 0\<rparr>, blockGasLimit = Some 10\<rparr>" scripted "[]"
          "\<lparr>inner = [Inr (JStr ''0x6'')], log = []\<rparr>" "''0x6''"
          "\<lparr>inner = [], log = [(\<lparr>method = ''eth_estimateGas'', params = []\<rparr>, Inr (JStr ''0x6''))]\<rparr>"
          6 10 "\<lparr>gasMultiplier = \<lparr>mant = 2, expo = 0\<rparr>, blockGasLimit = Some 10\<rparr>"
          "\<lparr>inner = [], log = [(\<lparr>method = ''eth_estimateGas'', params = []\<rparr>, Inr (JStr ''0x6''))]\<rparr>"]
      C1_returned_gas_at_most_block_limit
        [of "\<lparr>gasMultiplier = \<lparr>mant = 2, expo = 0\<rparr>, blockGasLimit = Some 10\<rparr>" scripted "[]"
          "\<lparr>inner = [Inr (JStr ''0x5'')], log = []\<rparr>" "''0x5''"
          "\<lparr>inner = [], log = [(\<lparr>method = ''eth_estimateGas'', params = []\<rparr>, Inr (JStr ''0x5''))]\<rparr>"
          5 10 "\<lparr>gasMultiplier = \<lparr>mant = 2, expo = 0\<rparr>, blockGasLimit = Some 10\<rparr>"
          "\<lparr>inner = [], log = [(\<lparr>method = ''eth_estimateGas'', params = []\<rparr>, Inr (JStr ''0x5''))]\<rparr>"]
    by (simp add: greater_than_one_def wrapped_request_def getBlockGasLimit_def
        rpcQuantityToNumber_def rpcQuantityToBN_def digit_val_eval
        m6 floor_mul_5_by_2)
qed

subsection \<open>The block gas limit over a run of estimations\<close>

lemma observed_gas_limits_append:
  "observed_gas_limits (xs @ ys) = observed_gas_limits xs @ observed_gas_limits ys"
  by (induction xs) (auto split: sum.splits)

lemma estimate_is_no_block_request:
  "\<lparr>method = ''eth_estimateGas'', params = ps\<rparr> \<noteq> latest_block_request"
  by (simp add: latest_block_request_def)

lemma getBlockGasLimit_agrees:
  assumes "cache_agrees inst w" and "getBlockGasLimit P inst w = (r, inst', w')"
  shows "cache_agrees inst' w'"
  using assms
  by (auto simp: getBlockGasLimit_def cache_agrees_def wrapped_request_def
      observed_gas_limits_append split: option.splits prod.splits sum.splits)

lemma estimation_try_agrees:
  assumes "cache_agrees inst w" and "estimation_try P inst ps w = (r, inst', w')"
  shows "cache_agrees inst' w'"
proof -
  obtain r1 w1 where call: "wrapped_request P \<lparr>method = ''eth_estimateGas'', params = ps\<rparr> w = (r1, w1)"
    by (cases "wrapped_request P \<lparr>method = ''eth_estimateGas'', params = ps\<rparr> w")
  then have "observed_gas_limits (log w1) = observed_gas_limits (log w)"
    by (auto simp: wrapped_request_def observed_gas_limits_append estimate_is_no_block_request
        split: prod.splits sum.splits)
  then have a1: "cache_agrees inst w1"
    using assms(1) by (simp add: cache_agrees_def)
  show ?thesis
    using assms(2) call a1 getBlockGasLimit_agrees [of inst w1 P]
    by (auto simp: estimation_try_def split: sum.splits prod.splits if_splits)
qed

lemma getMultipliedGasEstimation_agrees:
  assumes "cache_agrees inst w" and "getMultipliedGasEstimation P inst ps w = (r, inst', w')"
  shows "cache_agrees inst' w'"
proof -
  obtain r1 inst1 w1 where body: "estimation_try P inst ps w = (r1, inst1, w1)"
    by (cases "estimation_try P inst ps w") auto
  then have "cache_agrees inst1 w1"
    using assms(1) estimation_try_agrees by blast
  then show ?thesis
    using assms(2) body getBlockGasLimit_agrees [of inst1 w1 P]
    by (auto simp: getMultipliedGasEstimation_def split: sum.splits prod.splits if_splits)
qed

lemma run_estimations_agrees:
  "cache_agrees inst w \<Longrightarrow> run_estimations P inst w pss = (inst', w') \<Longrightarrow> cache_agrees inst' w'"
proof (induction pss arbitrary: inst w)
  case Nil
  then show ?case by simp
next
  case (Cons ps pss)
  obtain r inst1 w1 where step: "getMultipliedGasEstimation P inst ps w = (r, inst1, w1)"
    by (cases "getMultipliedGasEstimation P inst ps w") auto
  then have "cache_agrees inst1 w1"
    using Cons.prems(1) getMultipliedGasEstimation_agrees by blast
  moreover have "run_estimations P inst1 w1 pss = (inst', w')"
    using Cons.prems(2) step by simp
  ultimately show ?case by (rule Cons.IH)
qed

lemma estimation_keeps_cache:
  assumes "blockGasLimit inst = Some l"
    and "getMultipliedGasEstimation P inst ps w = (r, inst', w')"
  shows "inst' = inst \<and> block_fetches (log w') = block_fetches (log w)"
  using assms
  by (auto simp: getMultipliedGasEstimation_def estimation_try_def getBlockGasLimit_def
      wrapped_request_def block_fetches_def estimate_is_no_block_request
      split: sum.splits prod.splits if_splits)

lemma run_estimations_keeps_cache:
  "blockGasLimit inst = Some l \<Longrightarrow> run_estimations P inst w pss = (inst', w') \<Longrightarrow>
   inst' = inst \<and> block_fetches (log w') = block_fetches (log w)"
proof (induction pss arbitrary: w)
  case Nil
  then show ?case by simp
next
  case (Cons ps pss)
  obtain r inst1 w1 where step: "getMultipliedGasEstimation P inst ps w = (r, inst1, w1)"
    by (cases "getMultipliedGasEstimation P inst ps w") auto
  then have keep: "inst1 = inst" "block_fetches (log w1) = block_fetches (log w)"
    using Cons.prems(1) estimation_keeps_cache by blast+
  then have "run_estimations P inst w1 pss = (inst', w')"
    using Cons.prems(2) step by simp
  then show ?case using Cons.IH Cons.prems(1) keep by simp
qed

lemma request_keeps_cache:
  assumes "blockGasLimit inst = Some l"
  shows "fst (snd (AutomaticGasProvider_request P inst args w)) = inst"
proof -
  have "inst' = inst" if "getMultipliedGasEstimation P inst ps w = (r, inst', w')"
    for ps r inst' w'
    using estimation_keeps_cache [OF assms that] by simp
  then show ?thesis
    by (fastforce simp: AutomaticGasProvider_request_def
        split: list.splits json.splits prod.splits sum.splits)
qed

text \<open>
  Claim C4, as amended. Take an instance with an empty cache and any run of estimations on
  it. At most one latest-block lookup of the run delivers a gas limit. While none has, the
  cache is empty; once one has delivered \<open>g\<close>, the cache holds \<^verbatim>\<open>Math.floor(g * 0.95)\<close>, which
  for \<open>g\<close> up to \<open>2 ^ 50\<close> is the floor of 19/20 of \<open>g\<close>. From then on, whatever estimations
  follow, the cache keeps that value and no further latest-block lookup is made; nor does
  any request to the \<^verbatim>\<open>AutomaticGasProvider\<close> change the instance.
\<close>

theorem C4_block_limit_cached_once:
  assumes "blockGasLimit inst = None" and "observed_gas_limits (log w) = []"
    and "run_estimations P inst w pss = (inst', w')"
  shows "(blockGasLimit inst' = None \<longrightarrow> observed_gas_limits (log w') = []) \<and>
         (\<forall>l. blockGasLimit inst' = Some l \<longrightarrow>
            (\<exists>g. observed_gas_limits (log w') = [g] \<and> l = floor_mul g c095 \<and>
                 (g \<le> 2 ^ 50 \<longrightarrow> l = 19 * g div 20))) \<and>
         (\<forall>l more. blockGasLimit inst' = Some l \<longrightarrow>
            blockGasLimit (fst (run_estimations P inst' w' more)) = Some l \<and>
            block_fetches (log (snd (run_estimations P inst' w' more))) = block_fetches (log w')) \<and>
         (\<forall>l args w0. blockGasLimit inst' = Some l \<longrightarrow>
            fst (snd (AutomaticGasProvider_request P inst' args w0)) = inst')"
proof -
  have "cache_agrees inst w"
    using assms(1,2) by (simp add: cache_agrees_def)
  then have "cache_agrees inst' w'"
    using assms(3) by (rule run_estimations_agrees)
  then have agrees: "map (\<lambda>g. floor_mul g c095) (observed_gas_limits (log w')) =
      (case blockGasLimit inst' of None \<Rightarrow> [] | Some l \<Rightarrow> [l])"
    by (simp add: cache_agrees_def)
  have first: "observed_gas_limits (log w') = []" if "blockGasLimit inst' = None"
    using agrees that by simp
  have second: "\<exists>g. observed_gas_limits (log w') = [g] \<and> l = floor_mul g c095 \<and>
      (g \<le> 2 ^ 50 \<longrightarrow> l = 19 * g div 20)"
    if "blockGasLimit inst' = Some l" for l
  proof -
    from agrees that
    have "map (\<lambda>g. floor_mul g c095) (observed_gas_limits (log w')) = [l]" by simp
    then obtain g where "observed_gas_limits (log w') = [g]" and "l = floor_mul g c095"
      by (auto simp: map_eq_Cons_conv)
    then show ?thesis using floor_mul_c095_exact by blast
  qed
  have third: "blockGasLimit (fst (run_estimations P inst' w' more)) = Some l \<and>
      block_fetches (log (snd (run_estimations P inst' w' more))) = block_fetches (log w')"
    if "blockGasLimit inst' = Some l" for l more
    using run_estimations_keeps_cache [OF that, of P w' more] that
    by (cases "run_estimations P inst' w' more") simp
  have fourth: "fst (snd (AutomaticGasProvider_request P inst' args w0)) = inst'"
    if "blockGasLimit inst' = Some l" for l args w0
    using that by (rule request_keeps_cache)
  show ?thesis using first second third fourth by blast
qed

text \<open>
  The claim as first stated has the lookup made at most once. A lookup that throws leaves
  the cache empty, and the next estimation looks the block up again: here the first lookup
  times out, and the run makes two.
\<close>

theorem C4_counterexample:
  "run_estimations scripted
     \<lparr>gasMultiplier = \<lparr>mant = 2, expo = 0\<rparr>, blockGasLimit = None\<rparr>
     \<lparr>inner = [Inr (JStr ''0x5''), Inl (Error ''timeout''),
               Inr (JStr ''0x5''), Inr (JObj [(''gasLimit'', JStr ''0xb'')])], log = []\<rparr>
     [[], []] =
   (\<lparr>gasMultiplier = \<lparr>mant = 2, expo = 0\<rparr>, blockGasLimit = Some 10\<rparr>,
    \<lparr>inner = [],
     log = [(\<lparr>method = ''eth_estimateGas'', params = []\<rparr>, Inr (JStr ''0x5'')),
            (latest_block_request, Inl (Error ''timeout'')),
            (\<lparr>method = ''eth_estimateGas'', params = []\<rparr>, Inr (JStr ''0x5'')),
            (latest_block_request, Inr (JObj [(''gasLimit'', JStr ''0xb'')]))]\<rparr>) \<and>
   length (block_fetches
     [(\<lparr>method = ''eth_estimateGas'', params = []\<rparr>, Inr (JStr ''0x5'')),
      (latest_block_request, Inl (Error ''timeout'')),
      (\<lparr>method = ''eth_estimateGas'', params = []\<rparr>, Inr (JStr ''0x5'')),
      (latest_block_request, Inr (JObj [(''gasLimit'', JStr ''0xb'')]))]) = 2"
  by (simp add: is_one_def getMultipliedGasEstimation_def estimation_try_def
      wrapped_request_def getBlockGasLimit_def fetchedGasLimit_def get_field_def
      rpcQuantityToNumber_def rpcQuantityToBN_def digit_val_eval toLowerCase_def
      floor_mul_11 floor_mul_5_by_2 clamp_gas_def quantity_of_int_def
      block_fetches_def estimate_is_no_block_request)

theorem C4_witness:
  "run_estimations scripted
     \<lparr>gasMultiplier = \<lparr>mant = 2, expo = 0\<rparr>, blockGasLimit = None\<rparr>
     \<lparr>inner = [Inr (JStr ''0x5''), Inr (JObj [(''gasLimit'', JStr ''0xb'')]),
               Inr (JStr ''0x5'')], log = []\<rparr>
     [[], []] =
   (\<lparr>gasMultiplier = \<lparr>mant = 2, expo = 0\<rparr>, blockGasLimit = Some 10\<rparr>,
    \<lparr>inner = [],
     log = [(\<lparr>method = ''eth_estimateGas'', params = []\<rparr>, Inr (JStr ''0x5'')),
            (latest_block_request, Inr (JObj [(''gasLimit'', JStr ''0xb'')])),
            (\<lparr>method = ''eth_estimateGas'', params = []\<rparr>, Inr (JStr ''0x5''))]\<rparr>) \<and>
   map (\<lambda>g. floor_mul g c095)
     (observed_gas_limits
       [(\<lparr>method = ''eth_estimateGas'', params = []\<rparr>, Inr (JStr ''0x5'')),
        (latest_block_request, Inr (JObj [(''gasLimit'', JStr ''0xb'')])),
        (\<lparr>method = ''eth_estimateGas'', params = []\<rparr>, Inr (JStr ''0x5''))]) = [10] \<and>
   blockGasLimit (fst (run_estimations scripted
     \<lparr>gasMultiplier = \<lparr>mant = 2, expo = 0\<rparr>, blockGasLimit = Some 10\<rparr>
     \<lparr>inner = [],
      log = [(\<lparr>method = ''eth_estimateGas'', params = []\<rparr>, Inr (JStr ''0x5'')),
             (latest_block_request, Inr (JObj [(''gasLimit'', JStr ''0xb'')])),
             (\<lparr>method = ''eth_estimateGas'', params = []\<rparr>, Inr (JStr ''0x5''))]\<rparr>
     [[]])) = Some 10"
  (is "?run \<and> ?observed \<and> ?kept")
proof -
  have run: ?run
    by (simp add: is_one_def getMultipliedGasEstimation_def estimation_try_def
        wrapped_request_def getBlockGasLimit_def fetchedGasLimit_def get_field_def
        rpcQuantityToNumber_def rpcQuantityToBN_def digit_val_eval
        floor_mul_11 floor_mul_5_by_2 clamp_gas_def quantity_of_int_def)
  let ?inst' = "\<lparr>gasMultiplier = \<lparr>mant = 2, expo = 0\<rparr>, blockGasLimit = Some 10\<rparr>"
  let ?lg = "[(\<lparr>method = ''eth_estimateGas'', params = []\<rparr>, Inr (JStr ''0x5'')),
              (latest_block_request, Inr (JObj [(''gasLimit'', JStr ''0xb'')])),
              (\<lparr>method = ''eth_estimateGas'', params = []\<rparr>, Inr (JStr ''0x5''))]"
  let ?w' = "\<lparr>inner = [] :: (thrown + json) list, log = ?lg\<rparr>"
  have empty: "blockGasLimit \<lparr>gasMultiplier = \<lparr>mant = 2, expo = 0\<rparr>, blockGasLimit = None\<rparr> = None"
    by simp
  have fresh: "observed_gas_limits
      (log \<lparr>inner = [Inr (JStr ''0x5''), Inr (JObj [(''gasLimit'', JStr ''0xb'')]),
                     Inr (JStr ''0x5'')], log = []\<rparr>) = []"
    by simp
  note c4 = C4_block_limit_cached_once [OF empty fresh run]
  have cached: "blockGasLimit ?inst' = Some 10" by simp
  from c4 cached obtain g
    where "observed_gas_limits (log ?w') = [g]" and "10 = floor_mul g c095"
    by blast
  then have observed: ?observed by (simp del: observed_gas_limits.simps)
  from c4 cached have kept: ?kept by blast
  from run observed kept show ?thesis by (intro conjI)
qed

subsection \<open>AutomaticGasPriceProvider: a transaction that is already priced\<close>

text \<open>
  Claim C7. An \<^verbatim>\<open>eth_sendTransaction\<close> request whose transaction has a \<open>gasPrice\<close>, or has
  both \<open>maxFeePerGas\<close> and \<open>maxPriorityFeePerGas\<close>, is forwarded as it came, whatever the
  two fees are: the outcome is the wrapped provider's answer to that very request, the
  flags of the instance are untouched, and the forwarded request is the only request made.
\<close>

theorem C7_priced_transaction_passes_through:
  assumes "method args = ''eth_sendTransaction''" and "params args = JObj tx # rest"
    and "get_field tx ''gasPrice'' \<noteq> None \<or>
         (get_field tx ''maxFeePerGas'' \<noteq> None \<and> get_field tx ''maxPriorityFeePerGas'' \<noteq> None)"
  shows "AutomaticGasPriceProvider_request P inst args w =
           (fst (P (inner w) args), inst,
            \<lparr>inner = snd (P (inner w) args), log = log w @ [(args, fst (P (inner w) args))]\<rparr>)"
  using assms
  by (auto simp: AutomaticGasPriceProvider_request_def wrapped_request_def split: prod.splits)

theorem C7_witness:
  "AutomaticGasPriceProvider_request scripted
     \<lparr>nodeHasFeeHistory = None, nodeSupportsEIP1559 = None\<rparr>
     \<lparr>method = ''eth_sendTransaction'',
      params = [JObj [(''maxFeePerGas'', JStr ''0x1''), (''maxPriorityFeePerGas'', JStr ''0x2'')]]\<rparr>
     \<lparr>inner = [Inr (JStr ''0xabc'')], log = []\<rparr> =
   (Inr (JStr ''0xabc''), \<lparr>nodeHasFeeHistory = None, nodeSupportsEIP1559 = None\<rparr>,
    \<lparr>inner = [],
     log = [(\<lparr>method = ''eth_sendTransaction'',
              params = [JObj [(''maxFeePerGas'', JStr ''0x1''), (''maxPriorityFeePerGas'', JStr ''0x2'')]]\<rparr>,
             Inr (JStr ''0xabc''))]\<rparr>)"
  using C7_priced_transaction_passes_through
    [of "\<lparr>method = ''eth_sendTransaction'',
      params = [JObj [(''maxFeePerGas'', JStr ''0x1''), (''maxPriorityFeePerGas'', JStr ''0x2'')]]\<rparr>"
      "[(''maxFeePerGas'', JStr ''0x1''), (''maxPriorityFeePerGas'', JStr ''0x2'')]" "[]"
      scripted "\<lparr>nodeHasFeeHistory = None, nodeSupportsEIP1559 = None\<rparr>"
      "\<lparr>inner = [Inr (JStr ''0xabc'')], log = []\<rparr>"]
  by (simp add: get_field_def)

subsection \<open>AutomaticGasPriceProvider: the values suggested from the fee history\<close>

lemma fee_values_of_response_eq:
  assumes "get_field response ''baseFeePerGas'' = Some (JArr [JStr s0, JStr s1])"
    and "get_field response ''reward'' = Some (JArr [JArr [JStr sr]])"
    and "rpcQuantityToBN s1 = Some b1" and "rpcQuantityToBN sr = Some r"
  shows "fee_values_of_response (JObj response) =
           Inr \<lparr>maxFeePerGas = b1 * 81 div 64, maxPriorityFeePerGas = r\<rparr>"
  using assms
  by (simp add: fee_values_of_response_def EIP1559_BASE_FEE_MAX_FULL_BLOCKS_PREFERENCE_def)

text \<open>
  Claim C3. Let the support of EIP-1559 be settled and not denied, and let the fee history
  not be marked as missing. If \<^verbatim>\<open>eth_feeHistory\<close>, asked for one block and the percentile 50,
  answers with \<open>baseFeePerGas = [b0, b1]\<close> and \<open>reward = [[r]]\<close>, the values suggested are
  \<open>maxPriorityFeePerGas = r\<close> and \<open>maxFeePerGas = b1 * 81 div 64\<close>, the latter being
  \<open>b1 * 9 ^ (N - 1) div 8 ^ (N - 1)\<close> for the preference \<open>N = 3\<close>, in exact integer arithmetic.
  The first entry \<open>b0\<close> is not read.
\<close>

theorem C3_fee_market_projection:
  assumes "detect_eip1559 P inst w = (Inr (), inst1, w1)"
    and "nodeHasFeeHistory inst1 \<noteq> Some False" and "nodeSupportsEIP1559 inst1 \<noteq> Some False"
    and "wrapped_request P fee_history_request w1 = (Inr (JObj response), w2)"
    and "get_field response ''baseFeePerGas'' = Some (JArr [JStr s0, JStr s1])"
    and "get_field response ''reward'' = Some (JArr [JArr [JStr sr]])"
    and "rpcQuantityToBN s1 = Some b1" and "rpcQuantityToBN sr = Some r"
  shows "suggestEip1559FeePriceValues P inst w =
           (Inr (Some \<lparr>maxFeePerGas = b1 * 81 div 64, maxPriorityFeePerGas = r\<rparr>), inst1, w2) \<and>
         b1 * 81 div 64 =
           b1 * 9 ^ (EIP1559_BASE_FEE_MAX_FULL_BLOCKS_PREFERENCE - 1)
             div 8 ^ (EIP1559_BASE_FEE_MAX_FULL_BLOCKS_PREFERENCE - 1) \<and>
         EIP1559_BASE_FEE_MAX_FULL_BLOCKS_PREFERENCE = 3 \<and>
         fee_history_request =
           \<lparr>method = ''eth_feeHistory'', params = [JStr ''0x1'', JStr ''latest'', JArr [JNum 50]]\<rparr>"
proof -
  have "fee_values_of_response (JObj response) =
      Inr \<lparr>maxFeePerGas = b1 * 81 div 64, maxPriorityFeePerGas = r\<rparr>"
    using assms(5-8) by (rule fee_values_of_response_eq)
  then have "suggestEip1559FeePriceValues P inst w =
      (Inr (Some \<lparr>maxFeePerGas = b1 * 81 div 64, maxPriorityFeePerGas = r\<rparr>), inst1, w2)"
    using assms(1-4) by (simp add: suggestEip1559FeePriceValues_def)
  then show ?thesis
    by (simp add: EIP1559_BASE_FEE_MAX_FULL_BLOCKS_PREFERENCE_def fee_history_request_def
        EIP1559_REWARD_PERCENTILE_def)
qed

theorem C3_witness:
  "suggestEip1559FeePriceValues scripted
     \<lparr>nodeHasFeeHistory = None, nodeSupportsEIP1559 = None\<rparr>
     \<lparr>inner = [Inr (JObj [(''baseFeePerGas'', JStr ''0x7'')]),
               Inr (JObj [(''baseFeePerGas'', JArr [JStr ''0x7'', JStr ''0x64'']),
                          (''reward'', JArr [JArr [JStr ''0x5'']])])],
      log = []\<rparr> =
   (Inr (Some \<lparr>maxFeePerGas = 126, maxPriorityFeePerGas = 5\<rparr>),
    \<lparr>nodeHasFeeHistory = None, nodeSupportsEIP1559 = Some True\<rparr>,
    \<lparr>inner = [],
     log = [(latest_block_request, Inr (JObj [(''baseFeePerGas'', JStr ''0x7'')])),
            (fee_history_request,
             Inr (JObj [(''baseFeePerGas'', JArr [JStr ''0x7'', JStr ''0x64'']),
                        (''reward'', JArr [JArr [JStr ''0x5'']])]))]\<rparr>)"
  using C3_fee_market_projection
    [of scripted "\<lparr>nodeHasFeeHistory = None, nodeSupportsEIP1559 = None\<rparr>"
      "\<lparr>inner = [Inr (JObj [(''baseFeePerGas'', JStr ''0x7'')]),
               Inr (JObj [(''baseFeePerGas'', JArr [JStr ''0x7'', JStr ''0x64'']),
                          (''reward'', JArr [JArr [JStr ''0x5'']])])],
      log = []\<rparr>"
      "\<lparr>nodeHasFeeHistory = None, nodeSupportsEIP1559 = Some True\<rparr>"
      "\<lparr>inner = [Inr (JObj [(''baseFeePerGas'', JArr [JStr ''0x7'', JStr ''0x64'']),
                          (''reward'', JArr [JArr [JStr ''0x5'']])])],
        log = [(latest_block_request, Inr (JObj [(''baseFeePerGas'', JStr ''0x7'')]))]\<rparr>"
      "[(''baseFeePerGas'', JArr [JStr ''0x7'', JStr ''0x64'']),
        (''reward'', JArr [JArr [JStr ''0x5'']])]"
      "\<lparr>inner = [],
        log = [(latest_block_request, Inr (JObj [(''baseFeePerGas'', JStr ''0x7'')])),
            (fee_history_request,
             Inr (JObj [(''baseFeePerGas'', JArr [JStr ''0x7'', JStr ''0x64'']),
                        (''reward'', JArr [JArr [JStr ''0x5'']])]))]\<rparr>"
      "''0x7''" "''0x64''" "''0x5''" 100 5]
  by (simp add: detect_eip1559_def wrapped_request_def get_field_def decode_0x64 decode_small)

subsection \<open>AutomaticGasPriceProvider: the fees written back\<close>

lemma request_writes_resolved_fees:
  assumes "method args = ''eth_sendTransaction''" and "params args = JObj tx # rest"
    and "get_field tx ''gasPrice'' = None"
    and "get_field tx ''maxFeePerGas'' = None \<or> get_field tx ''maxPriorityFeePerGas'' = None"
    and "suggestEip1559FeePriceValues P inst w = (Inr suggested, inst1, w1)"
    and "get_field tx ''maxFeePerGas'' \<noteq> None \<or> get_field tx ''maxPriorityFeePerGas'' \<noteq> None \<or>
         suggested \<noteq> None"
    and "values_or_gas_price P suggested w1 = (Inr fees, w2)"
    and "resolve_fees tx fees = Inr tx'"
  shows "AutomaticGasPriceProvider_request P inst args w =
           (case wrapped_request P (args\<lparr>params := JObj tx' # rest\<rparr>) w2 of
              (r, w3) \<Rightarrow> (r, inst1, w3))"
  using assms by (auto simp: AutomaticGasPriceProvider_request_def)

lemma resolve_fees_fields:
  assumes "(case get_field tx ''maxFeePerGas'' of
              Some v \<Rightarrow> quantityToBN (Some v)
            | None \<Rightarrow> Inr (maxFeePerGas fees)) = Inr maxFee"
    and "(case get_field tx ''maxPriorityFeePerGas'' of
              Some v \<Rightarrow> quantityToBN (Some v)
            | None \<Rightarrow> Inr (maxPriorityFeePerGas fees)) = Inr maxPriority"
  shows "\<exists>tx'. resolve_fees tx fees = Inr tx' \<and>
           get_field tx' ''maxFeePerGas'' =
             Some (JStr (numberToRpcQuantity
                (if maxFee < maxPriority then maxFee + maxPriority else maxFee))) \<and>
           get_field tx' ''maxPriorityFeePerGas'' = Some (JStr (numberToRpcQuantity maxPriority)) \<and>
           (\<forall>k. k \<noteq> ''maxFeePerGas'' \<and> k \<noteq> ''maxPriorityFeePerGas'' \<longrightarrow>
                get_field tx' k = get_field tx k)"
  using assms by (simp add: resolve_fees_def get_field_set_field)

text \<open>
  Claim C5. Take a request that reaches the resolution of the two fees, and let \<open>maxFee\<close>
  and \<open>maxPriority\<close> be the resolved values: from the transaction where it has the
  property, from the suggested values or the gas price otherwise. If \<open>maxFee < maxPriority\<close>,
  the request forwarded has \<open>maxFeePerGas\<close> set to the encoding of \<open>maxFee + maxPriority\<close>,
  which is not their maximum unless \<open>maxFee = 0\<close>, and \<open>maxPriorityFeePerGas\<close> set to the
  encoding of \<open>maxPriority\<close>; every other property is as it was.
\<close>

theorem C5_cap_below_priority_fee_becomes_sum:
  assumes "method args = ''eth_sendTransaction''" and "params args = JObj tx # rest"
    and "get_field tx ''gasPrice'' = None"
    and "get_field tx ''maxFeePerGas'' = None \<or> get_field tx ''maxPriorityFeePerGas'' = None"
    and "suggestEip1559FeePriceValues P inst w = (Inr suggested, inst1, w1)"
    and "get_field tx ''maxFeePerGas'' \<noteq> None \<or> get_field tx ''maxPriorityFeePerGas'' \<noteq> None \<or>
         suggested \<noteq> None"
    and "values_or_gas_price P suggested w1 = (Inr fees, w2)"
    and "(case get_field tx ''maxFeePerGas'' of
              Some v \<Rightarrow> quantityToBN (Some v)
            | None \<Rightarrow> Inr (maxFeePerGas fees)) = Inr maxFee"
    and "(case get_field tx ''maxPriorityFeePerGas'' of
              Some v \<Rightarrow> quantityToBN (Some v)
            | None \<Rightarrow> Inr (maxPriorityFeePerGas fees)) = Inr maxPriority"
    and "maxFee < maxPriority"
  shows "\<exists>tx'. AutomaticGasPriceProvider_request P inst args w =
                 (case wrapped_request P (args\<lparr>params := JObj tx' # rest\<rparr>) w2 of
                    (r, w3) \<Rightarrow> (r, inst1, w3)) \<and>
               get_field tx' ''maxFeePerGas'' =
                 Some (JStr (numberToRpcQuantity (maxFee + maxPriority))) \<and>
               get_field tx' ''maxPriorityFeePerGas'' =
                 Some (JStr (numberToRpcQuantity maxPriority)) \<and>
               rpcQuantityToBN (numberToRpcQuantity (maxFee + maxPriority)) =
                 Some (maxFee + maxPriority) \<and>
               (0 < maxFee \<longrightarrow> maxFee + maxPriority \<noteq> max maxFee maxPriority) \<and>
               (\<forall>k. k \<noteq> ''maxFeePerGas'' \<and> k \<noteq> ''maxPriorityFeePerGas'' \<longrightarrow>
                    get_field tx' k = get_field tx k)"
proof -
  from resolve_fees_fields [OF assms(8,9)] assms(10)
  obtain tx' where tx': "resolve_fees tx fees = Inr tx'"
    and fee: "get_field tx' ''maxFeePerGas'' =
      Some (JStr (numberToRpcQuantity (maxFee + maxPriority)))"
    and priority: "get_field tx' ''maxPriorityFeePerGas'' =
      Some (JStr (numberToRpcQuantity maxPriority))"
    and others: "\<forall>k. k \<noteq> ''maxFeePerGas'' \<and> k \<noteq> ''maxPriorityFeePerGas'' \<longrightarrow>
      get_field tx' k = get_field tx k"
    by auto
  have "AutomaticGasPriceProvider_request P inst args w =
      (case wrapped_request P (args\<lparr>params := JObj tx' # rest\<rparr>) w2 of
         (r, w3) \<Rightarrow> (r, inst1, w3))"
    using assms(1-7) tx' by (rule request_writes_resolved_fees)
  then show ?thesis
    using fee priority others assms(10)
    by (intro exI [of _ tx']) (simp add: rpcQuantityToBN_numberToRpcQuantity)
qed

theorem C5_witness:
  "\<exists>tx'. AutomaticGasPriceProvider_request scripted
            \<lparr>nodeHasFeeHistory = None, nodeSupportsEIP1559 = Some True\<rparr>
            \<lparr>method = ''eth_sendTransaction'', params = [JObj [(''to'', JStr ''0xee'')]]\<rparr>
            \<lparr>inner = [Inr (JObj [(''baseFeePerGas'', JArr [JStr ''0x7'', JStr ''0x2'']),
                                 (''reward'', JArr [JArr [JStr ''0x5'']])]),
                      Inr (JStr ''0xabc'')],
             log = []\<rparr> =
          (Inr (JStr ''0xabc''), \<lparr>nodeHasFeeHistory = None, nodeSupportsEIP1559 = Some True\<rparr>,
           \<lparr>inner = [],
            log = [(fee_history_request,
                    Inr (JObj [(''baseFeePerGas'', JArr [JStr ''0x7'', JStr ''0x2'']),
                               (''reward'', JArr [JArr [JStr ''0x5'']])])),
                   (\<lparr>method = ''eth_sendTransaction'', params = [JObj tx']\<rparr>,
                    Inr (JStr ''0xabc''))]\<rparr>) \<and>
          get_field tx' ''maxFeePerGas'' = Some (JStr (numberToRpcQuantity 7)) \<and>
          get_field tx' ''maxPriorityFeePerGas'' = Some (JStr (numberToRpcQuantity 5)) \<and>
          get_field tx' ''to'' = Some (JStr ''0xee'')"
proof -
  let ?inst = "\<lparr>nodeHasFeeHistory = None, nodeSupportsEIP1559 = Some True\<rparr>"
  let ?history = "JObj [(''baseFeePerGas'', JArr [JStr ''0x7'', JStr ''0x2'']),
                       (''reward'', JArr [JArr [JStr ''0x5'']])]"
  let ?w = "\<lparr>inner = [Inr ?history, Inr (JStr ''0xabc'')], log = []\<rparr>"
  let ?w1 = "\<lparr>inner = [Inr (JStr ''0xabc'')], log = [(fee_history_request, Inr ?history)]\<rparr>"
  let ?fees = "\<lparr>maxFeePerGas = 2, maxPriorityFeePerGas = 5\<rparr>"
  let ?args = "\<lparr>method = ''eth_sendTransaction'', params = [JObj [(''to'', JStr ''0xee'')]]\<rparr>"
  have vals: "fee_values_of_response ?history = Inr ?fees"
    by (simp add: fee_values_of_response_def get_field_def decode_small
        EIP1559_BASE_FEE_MAX_FULL_BLOCKS_PREFERENCE_def)
  have suggested: "suggestEip1559FeePriceValues scripted ?inst ?w = (Inr (Some ?fees), ?inst, ?w1)"
    by (simp add: suggestEip1559FeePriceValues_def detect_eip1559_def wrapped_request_def vals)
  have fallback: "values_or_gas_price scripted (Some ?fees) ?w1 = (Inr ?fees, ?w1)"
    by (simp add: values_or_gas_price_def)
  have "\<exists>tx'. AutomaticGasPriceProvider_request scripted ?inst ?args ?w =
                 (case wrapped_request scripted (?args\<lparr>params := JObj tx' # []\<rparr>) ?w1 of
                    (r, w3) \<Rightarrow> (r, ?inst, w3)) \<and>
               get_field tx' ''maxFeePerGas'' = Some (JStr (numberToRpcQuantity (2 + 5))) \<and>
               get_field tx' ''maxPriorityFeePerGas'' = Some (JStr (numberToRpcQuantity 5)) \<and>
               rpcQuantityToBN (numberToRpcQuantity (2 + 5)) = Some (2 + 5) \<and>
               (0 < (2::nat) \<longrightarrow> 2 + 5 \<noteq> max 2 (5::nat)) \<and>
               (\<forall>k. k \<noteq> ''maxFeePerGas'' \<and> k \<noteq> ''maxPriorityFeePerGas'' \<longrightarrow>
                    get_field tx' k = get_field [(''to'', JStr ''0xee'')] k)"
    by (rule C5_cap_below_priority_fee_becomes_sum
          [where suggested = "Some ?fees" and fees = ?fees and ?w1.0 = ?w1])
      (simp_all add: suggested fallback get_field_def)
  then obtain tx' where
    request: "AutomaticGasPriceProvider_request scripted ?inst ?args ?w =
       (case wrapped_request scripted (?args\<lparr>params := JObj tx' # []\<rparr>) ?w1 of
          (r, w3) \<Rightarrow> (r, ?inst, w3))"
    and fee: "get_field tx' ''maxFeePerGas'' = Some (JStr (numberToRpcQuantity (2 + 5)))"
    and priority: "get_field tx' ''maxPriorityFeePerGas'' = Some (JStr (numberToRpcQuantity 5))"
    and others: "\<forall>k. k \<noteq> ''maxFeePerGas'' \<and> k \<noteq> ''maxPriorityFeePerGas'' \<longrightarrow>
                    get_field tx' k = get_field [(''to'', JStr ''0xee'')] k"
    by blast
  from others have "get_field tx' ''to'' = get_field [(''to'', JStr ''0xee'')] ''to''"
    by simp
  then have to: "get_field tx' ''to'' = Some (JStr ''0xee'')"
    by (simp add: get_field_def)
  from request fee priority to show ?thesis
    by (intro exI [of _ tx']) (simp add: wrapped_request_def)
qed

text \<open>
  Claim C8. A transaction that has \<open>maxFeePerGas\<close> and neither \<open>gasPrice\<close> nor
  \<open>maxPriorityFeePerGas\<close> does not always keep its \<open>maxFeePerGas\<close>: when the value is below
  the priority fee that is suggested, or that the gas price gives, the request forwarded
  carries the sum of the two in its place.
\<close>

theorem C8_partial_cap_is_overwritten:
  assumes "method args = ''eth_sendTransaction''" and "params args = JObj tx # rest"
    and "get_field tx ''gasPrice'' = None"
    and "get_field tx ''maxFeePerGas'' = Some (JStr s)" and "rpcQuantityToBN s = Some maxFee"
    and "get_field tx ''maxPriorityFeePerGas'' = None"
    and "suggestEip1559FeePriceValues P inst w = (Inr suggested, inst1, w1)"
    and "values_or_gas_price P suggested w1 = (Inr fees, w2)"
    and "maxFee < maxPriorityFeePerGas fees"
  shows "\<exists>tx'. AutomaticGasPriceProvider_request P inst args w =
                 (case wrapped_request P (args\<lparr>params := JObj tx' # rest\<rparr>) w2 of
                    (r, w3) \<Rightarrow> (r, inst1, w3)) \<and>
               get_field tx' ''maxFeePerGas'' =
                 Some (JStr (numberToRpcQuantity (maxFee + maxPriorityFeePerGas fees))) \<and>
               get_field tx' ''maxFeePerGas'' \<noteq> get_field tx ''maxFeePerGas'' \<and>
               get_field tx' ''maxPriorityFeePerGas'' =
                 Some (JStr (numberToRpcQuantity (maxPriorityFeePerGas fees)))"
proof -
  have fee: "(case get_field tx ''maxFeePerGas'' of
              Some v \<Rightarrow> quantityToBN (Some v)
            | None \<Rightarrow> Inr (maxFeePerGas fees)) = Inr maxFee"
    using assms(4,5) by simp
  have priority: "(case get_field tx ''maxPriorityFeePerGas'' of
              Some v \<Rightarrow> quantityToBN (Some v)
            | None \<Rightarrow> Inr (maxPriorityFeePerGas fees)) = Inr (maxPriorityFeePerGas fees)"
    using assms(6) by simp
  from resolve_fees_fields [OF fee priority] assms(9)
  obtain tx' where tx': "resolve_fees tx fees = Inr tx'"
    and fee': "get_field tx' ''maxFeePerGas'' =
      Some (JStr (numberToRpcQuantity (maxFee + maxPriorityFeePerGas fees)))"
    and priority': "get_field tx' ''maxPriorityFeePerGas'' =
      Some (JStr (numberToRpcQuantity (maxPriorityFeePerGas fees)))"
    by auto
  have "numberToRpcQuantity (maxFee + maxPriorityFeePerGas fees) \<noteq> s"
  proof
    assume "numberToRpcQuantity (maxFee + maxPriorityFeePerGas fees) = s"
    then have "rpcQuantityToBN s = Some (maxFee + maxPriorityFeePerGas fees)"
      using rpcQuantityToBN_numberToRpcQuantity by blast
    then show False using assms(5,9) by simp
  qed
  then have changed: "get_field tx' ''maxFeePerGas'' \<noteq> get_field tx ''maxFeePerGas''"
    using fee' assms(4) by simp
  have "AutomaticGasPriceProvider_request P inst args w =
      (case wrapped_request P (args\<lparr>params := JObj tx' # rest\<rparr>) w2 of
         (r, w3) \<Rightarrow> (r, inst1, w3))"
    using assms(1,2,3) _ assms(7) _ assms(8) tx'
    by (rule request_writes_resolved_fees) (simp_all add: assms(4,6))
  then show ?thesis
    using fee' priority' changed by (intro exI [of _ tx']) simp
qed

theorem C8_witness:
  "\<exists>tx'. AutomaticGasPriceProvider_request scripted
            \<lparr>nodeHasFeeHistory = None, nodeSupportsEIP1559 = None\<rparr>
            \<lparr>method = ''eth_sendTransaction'', params = [JObj [(''maxFeePerGas'', JStr ''0x2'')]]\<rparr>
            \<lparr>inner = [Inr (JObj [(''number'', JStr ''0x1'')]), Inr (JStr ''0x9''),
                      Inr (JStr ''0xabc'')],
             log = []\<rparr> =
          (Inr (JStr ''0xabc''), \<lparr>nodeHasFeeHistory = None, nodeSupportsEIP1559 = Some False\<rparr>,
           \<lparr>inner = [],
            log = [(latest_block_request, Inr (JObj [(''number'', JStr ''0x1'')])),
                   (\<lparr>method = ''eth_gasPrice'', params = []\<rparr>, Inr (JStr ''0x9'')),
                   (\<lparr>method = ''eth_sendTransaction'', params = [JObj tx']\<rparr>,
                    Inr (JStr ''0xabc''))]\<rparr>) \<and>
          get_field tx' ''maxFeePerGas'' = Some (JStr (numberToRpcQuantity 11)) \<and>
          get_field tx' ''maxPriorityFeePerGas'' = Some (JStr (numberToRpcQuantity 9))"
  using C8_partial_cap_is_overwritten
    [of "\<lparr>method = ''eth_sendTransaction'', params = [JObj [(''maxFeePerGas'', JStr ''0x2'')]]\<rparr>"
      "[(''maxFeePerGas'', JStr ''0x2'')]" "[]" "''0x2''" 2 scripted
      "\<lparr>nodeHasFeeHistory = None, nodeSupportsEIP1559 = None\<rparr>"
      "\<lparr>inner = [Inr (JObj [(''number'', JStr ''0x1'')]), Inr (JStr ''0x9''),
                      Inr (JStr ''0xabc'')],
             log = []\<rparr>"
      None
      "\<lparr>nodeHasFeeHistory = None, nodeSupportsEIP1559 = Some False\<rparr>"
      "\<lparr>inner = [Inr (JStr ''0x9''), Inr (JStr ''0xabc'')],
        log = [(latest_block_request, Inr (JObj [(''number'', JStr ''0x1'')]))]\<rparr>"
      "\<lparr>maxFeePerGas = 9, maxPriorityFeePerGas = 9\<rparr>"
      "\<lparr>inner = [Inr (JStr ''0xabc'')],
        log = [(latest_block_request, Inr (JObj [(''number'', JStr ''0x1'')])),
               (\<lparr>method = ''eth_gasPrice'', params = []\<rparr>, Inr (JStr ''0x9''))]\<rparr>"]
  by (simp add: suggestEip1559FeePriceValues_def detect_eip1559_def wrapped_request_def
      get_field_def decode_small values_or_gas_price_def getGasPrice_def)
    (auto simp: get_field_def)

subsection \<open>AutomaticGasPriceProvider: which failures are recovered\<close>

lemma suggest_keeps_no_fee_history:
  assumes "nodeHasFeeHistory inst = Some False"
    and "suggestEip1559FeePriceValues P inst w = (r, inst', w')"
  shows "nodeHasFeeHistory inst' = Some False \<and>
         filter (\<lambda>entry. fst entry = fee_history_request) (log w') =
           filter (\<lambda>entry. fst entry = fee_history_request) (log w)"
  using assms
  by (auto simp: suggestEip1559FeePriceValues_def detect_eip1559_def wrapped_request_def
      latest_block_request_def fee_history_request_def
      split: option.splits sum.splits prod.splits if_splits)

lemma gas_price_failure_propagates:
  assumes "method args = ''eth_sendTransaction''" and "params args = JObj tx # rest"
    and "get_field tx ''gasPrice'' = None"
    and "get_field tx ''maxFeePerGas'' = None \<or> get_field tx ''maxPriorityFeePerGas'' = None"
    and "suggestEip1559FeePriceValues P inst w = (Inr None, inst1, w1)"
    and "getGasPrice P w1 = (Inl e, w2)"
  shows "AutomaticGasPriceProvider_request P inst args w = (Inl e, inst1, w2)"
  using assms
  by (auto simp: AutomaticGasPriceProvider_request_def values_or_gas_price_def)

text \<open>
  Claim C10. The latest-block lookup that settles the support of EIP-1559 is made outside
  any \<^verbatim>\<open>try\<close>: when it throws, the suggestion throws the same value, and so does the request
  of a transaction that is not yet priced; no flag is set. A throwing \<^verbatim>\<open>eth_feeHistory\<close> is
  caught: the suggestion returns \<^verbatim>\<open>undefined\<close> and marks the fee history as missing. That mark
  stays: a later suggestion keeps it and makes no \<^verbatim>\<open>eth_feeHistory\<close> request. A throwing
  \<^verbatim>\<open>eth_gasPrice\<close>, like the latest-block lookup, is not caught.
\<close>

theorem C10_only_fee_history_failure_is_recovered:
  "(nodeSupportsEIP1559 inst = None \<and> wrapped_request P latest_block_request w = (Inl e, w1) \<longrightarrow>
      suggestEip1559FeePriceValues P inst w = (Inl e, inst, w1) \<and>
      (method args = ''eth_sendTransaction'' \<and> params args = JObj tx # rest \<and>
       get_field tx ''gasPrice'' = None \<and>
       (get_field tx ''maxFeePerGas'' = None \<or> get_field tx ''maxPriorityFeePerGas'' = None) \<longrightarrow>
         AutomaticGasPriceProvider_request P inst args w = (Inl e, inst, w1))) \<and>
   (detect_eip1559 P inst w = (Inr (), inst1, w1) \<and>
    nodeHasFeeHistory inst1 \<noteq> Some False \<and> nodeSupportsEIP1559 inst1 \<noteq> Some False \<and>
    wrapped_request P fee_history_request w1 = (Inl e, w2) \<longrightarrow>
      suggestEip1559FeePriceValues P inst w =
        (Inr None, inst1\<lparr>nodeHasFeeHistory := Some False\<rparr>, w2)) \<and>
   (nodeHasFeeHistory inst = Some False \<and>
    suggestEip1559FeePriceValues P inst w = (r, inst', w') \<longrightarrow>
      nodeHasFeeHistory inst' = Some False \<and>
      filter (\<lambda>entry. fst entry = fee_history_request) (log w') =
        filter (\<lambda>entry. fst entry = fee_history_request) (log w)) \<and>
   (method args = ''eth_sendTransaction'' \<and> params args = JObj tx # rest \<and>
    get_field tx ''gasPrice'' = None \<and>
    (get_field tx ''maxFeePerGas'' = None \<or> get_field tx ''maxPriorityFeePerGas'' = None) \<and>
    suggestEip1559FeePriceValues P inst w = (Inr None, inst1, w1) \<and>
    getGasPrice P w1 = (Inl e, w2) \<longrightarrow>
      AutomaticGasPriceProvider_request P inst args w = (Inl e, inst1, w2))"
proof -
  have block: "suggestEip1559FeePriceValues P inst w = (Inl e, inst, w1)"
    if "nodeSupportsEIP1559 inst = None"
      and "wrapped_request P latest_block_request w = (Inl e, w1)"
    using that by (simp add: suggestEip1559FeePriceValues_def detect_eip1559_def)
  have request: "AutomaticGasPriceProvider_request P inst args w = (Inl e, inst, w1)"
    if "suggestEip1559FeePriceValues P inst w = (Inl e, inst, w1)"
      and "method args = ''eth_sendTransaction''" and "params args = JObj tx # rest"
      and "get_field tx ''gasPrice'' = None"
      and "get_field tx ''maxFeePerGas'' = None \<or> get_field tx ''maxPriorityFeePerGas'' = None"
    using that by (auto simp: AutomaticGasPriceProvider_request_def)
  have history: "suggestEip1559FeePriceValues P inst w =
      (Inr None, inst1\<lparr>nodeHasFeeHistory := Some False\<rparr>, w2)"
    if "detect_eip1559 P inst w = (Inr (), inst1, w1)"
      and "nodeHasFeeHistory inst1 \<noteq> Some False" and "nodeSupportsEIP1559 inst1 \<noteq> Some False"
      and "wrapped_request P fee_history_request w1 = (Inl e, w2)"
    using that by (simp add: suggestEip1559FeePriceValues_def)
  show ?thesis
    using block request history suggest_keeps_no_fee_history [of inst P w r inst' w']
      gas_price_failure_propagates [of args tx rest P inst w inst1 w1 e w2]
    by blast
qed

theorem C10_witness:
  "suggestEip1559FeePriceValues scripted
     \<lparr>nodeHasFeeHistory = None, nodeSupportsEIP1559 = None\<rparr>
     \<lparr>inner = [Inl (Error ''connection refused'')], log = []\<rparr> =
   (Inl (Error ''connection refused''), \<lparr>nodeHasFeeHistory = None, nodeSupportsEIP1559 = None\<rparr>,
    \<lparr>inner = [], log = [(latest_block_request, Inl (Error ''connection refused''))]\<rparr>) \<and>
   AutomaticGasPriceProvider_request scripted
     \<lparr>nodeHasFeeHistory = None, nodeSupportsEIP1559 = None\<rparr>
     \<lparr>method = ''eth_sendTransaction'', params = [JObj [(''to'', JStr ''0xee'')]]\<rparr>
     \<lparr>inner = [Inl (Error ''connection refused'')], log = []\<rparr> =
   (Inl (Error ''connection refused''), \<lparr>nodeHasFeeHistory = None, nodeSupportsEIP1559 = None\<rparr>,
    \<lparr>inner = [], log = [(latest_block_request, Inl (Error ''connection refused''))]\<rparr>) \<and>
   suggestEip1559FeePriceValues scripted
     \<lparr>nodeHasFeeHistory = None, nodeSupportsEIP1559 = Some True\<rparr>
     \<lparr>inner = [Inl (Error ''Method eth_feeHistory not found'')], log = []\<rparr> =
   (Inr None, \<lparr>nodeHasFeeHistory = Some False, nodeSupportsEIP1559 = Some True\<rparr>,
    \<lparr>inner = [], log = [(fee_history_request, Inl (Error ''Method eth_feeHistory not found''))]\<rparr>)"
  using
    C10_only_fee_history_failure_is_recovered
      [where inst = "\<lparr>nodeHasFeeHistory = None, nodeSupportsEIP1559 = None\<rparr>"
        and P = scripted
        and w = "\<lparr>inner = [Inl (Error ''connection refused'')], log = []\<rparr>"
        and e = "Error ''connection refused''"
        and ?w1.0 = "\<lparr>inner = [], log = [(latest_block_request, Inl (Error ''connection refused''))]\<rparr>"
        and args = "\<lparr>method = ''eth_sendTransaction'', params = [JObj [(''to'', JStr ''0xee'')]]\<rparr>"
        and tx = "[(''to'', JStr ''0xee'')]" and rest = "[]"]
    C10_only_fee_history_failure_is_recovered
      [where inst = "\<lparr>nodeHasFeeHistory = None, nodeSupportsEIP1559 = Some True\<rparr>"
        and P = scripted
        and w = "\<lparr>inner = [Inl (Error ''Method eth_feeHistory not found'')], log = []\<rparr>"
        and e = "Error ''Method eth_feeHistory not found''"
        and ?inst1.0 = "\<lparr>nodeHasFeeHistory = None, nodeSupportsEIP1559 = Some True\<rparr>"
        and ?w1.0 = "\<lparr>inner = [Inl (Error ''Method eth_feeHistory not found'')], log = []\<rparr>"
        and ?w2.0 = "\<lparr>inner = [], log = [(fee_history_request, Inl (Error ''Method eth_feeHistory not found''))]\<rparr>"]
  by (simp add: wrapped_request_def detect_eip1559_def get_field_def)

end
